theory Spec2Isabelle
  imports Complex_Main "HOL-Library.FSet" "HOL-Library.Multiset" "HOL-Library.Sublist"
begin

text \<open>
  A shallow embedding of the interactive data grid (TaskListView, IssueLogView) and of the
  Gantt timeline (GanttView) of \<^verbatim>\<open>App.tsx\<close>, with the properties of the column model,
  the filter, the selection, the persisted layout and the timeline geometry.
\<close>

section \<open>Data model (types.ts)\<close>

text \<open>
  The string-literal unions of \<^verbatim>\<open>types.ts\<close> are datatypes; the \<^verbatim>\<open>_str\<close> functions give
  the string each constructor is at run time.
\<close>

datatype TaskStatus = ToDo | Doing | Done | AtRisk | OnHold
datatype IssueStatus = Open | InProgress | Resolved | Closed
datatype Priority = Low | Medium | High | Critical
datatype TaskType = Task | Milestone

fun TaskStatus_str :: "TaskStatus \<Rightarrow> string" where
  "TaskStatus_str ToDo = ''To Do''"
| "TaskStatus_str Doing = ''Doing''"
| "TaskStatus_str Done = ''Done''"
| "TaskStatus_str AtRisk = ''At Risk''"
| "TaskStatus_str OnHold = ''On Hold''"

fun IssueStatus_str :: "IssueStatus \<Rightarrow> string" where
  "IssueStatus_str Open = ''Open''"
| "IssueStatus_str InProgress = ''In Progress''"
| "IssueStatus_str Resolved = ''Resolved''"
| "IssueStatus_str Closed = ''Closed''"

fun Priority_str :: "Priority \<Rightarrow> string" where
  "Priority_str Low = ''Low''"
| "Priority_str Medium = ''Medium''"
| "Priority_str High = ''High''"
| "Priority_str Critical = ''Critical''"

fun TaskType_str :: "TaskType \<Rightarrow> string" where
  "TaskType_str Task = ''Task''"
| "TaskType_str Milestone = ''Milestone''"

text \<open>
  \<^verbatim>\<open>interface Task\<close> and \<^verbatim>\<open>interface Issue\<close>. The optional \<^verbatim>\<open>closedDate?\<close> is an option
  (\<open>None\<close> is \<^verbatim>\<open>undefined\<close>). The two interfaces share field names, so fields are always
  written qualified: \<open>Task.title t\<close>, \<open>Issue.title i\<close>.
\<close>

record Task =
  id :: string
  title :: string
  description :: string
  status :: TaskStatus
  priority :: Priority
  startDate :: string
  dueDate :: string
  closedDate :: "string option"
  assignee :: string
  type :: TaskType

record Issue =
  id :: string
  title :: string
  description :: string
  status :: IssueStatus
  priority :: Priority
  dueDate :: string
  closedDate :: "string option"
  dateOpened :: string
  reportedBy :: string
  assignedTo :: string

section \<open>Array operations of the run-time library used by the grid\<close>

text \<open>\<^verbatim>\<open>Array.prototype.indexOf\<close>: the first index of the element, \<open>-1\<close> when absent.\<close>

fun indexOf :: "'a list \<Rightarrow> 'a \<Rightarrow> int" where
  "indexOf [] a = -1"
| "indexOf (b # bs) a =
     (if b = a then 0
      else (let i = indexOf bs a in if i < 0 then -1 else i + 1))"

text \<open>
  \<^verbatim>\<open>Array.prototype.splice(start, deleteCount, ...items)\<close>, returning the array after the
  mutation. A negative \<open>start\<close> counts from the end (clamped at 0), a \<open>start\<close> beyond the
  end is the end, and \<open>deleteCount\<close> is clamped to what is left after \<open>start\<close>.
\<close>

definition splice :: "'a list \<Rightarrow> int \<Rightarrow> int \<Rightarrow> 'a list \<Rightarrow> 'a list" where
  "splice xs start deleteCount items =
     (let len = int (length xs);
          actualStart = (if start < 0 then max (len + start) 0 else min start len);
          actualDeleteCount = min (max deleteCount 0) (len - actualStart)
      in take (nat actualStart) xs @ items @ drop (nat (actualStart + actualDeleteCount)) xs)"

section \<open>TaskListView: component state\<close>

text \<open>
  What an entry of \<^verbatim>\<open>columnWidths\<close> can be at run time: a finite number, NaN, or
  \<^verbatim>\<open>null\<close> (which \<^verbatim>\<open>JSON.parse\<close> can return). The declared type is \<^verbatim>\<open>number\<close>, which the
  run time does not enforce. Finite numbers are reals: the rounding and the infinities
  of IEEE doubles are outside the model. A key without an entry reads as \<^verbatim>\<open>undefined\<close>,
  which is \<open>None\<close> of the map.
\<close>

datatype jsvalue = Number real | NaN | Null

text \<open>
  One field per \<^verbatim>\<open>useState\<close> of the component. A \<^verbatim>\<open>Set<string>\<close> is a finite set, a
  \<^verbatim>\<open>Record<string, number>\<close> a map, \<^verbatim>\<open>string | null\<close> an option. \<^verbatim>\<open>activeFilters\<close> is kept
  as the list \<^verbatim>\<open>Object.entries\<close> enumerates. The pointer coordinates \<^verbatim>\<open>clientX\<close> of an event
  are finite numbers. \<^verbatim>\<open>startWidth\<close> holds whatever \<^verbatim>\<open>columnWidths[key]\<close> was when the drag
  started, \<open>None\<close> for \<^verbatim>\<open>undefined\<close>.
\<close>

record ResizeState =
  key :: string
  startX :: real
  startWidth :: "jsvalue option"

record TaskListView =
  selectedIds :: "string fset"
  columnWidths :: "string \<rightharpoonup> jsvalue"
  columnOrder :: "string list"
  resizing :: "ResizeState option"
  draggedColumn :: "string option"
  activeFilters :: "(string \<times> string) list"
  filterOpen :: "string option"

subsection \<open>Column reorder by drag and drop\<close>

definition handleColumnDragStart :: "string \<Rightarrow> TaskListView \<Rightarrow> TaskListView" where
  "handleColumnDragStart k st = st\<lparr>draggedColumn := Some k\<rparr>"

text \<open>
  \<^verbatim>\<open>handleColumnDrop\<close> (the same text in TaskListView and IssueLogView). The guard
  \<^verbatim>\<open>!draggedColumn\<close> holds for \<^verbatim>\<open>null\<close> and for the empty string.
\<close>

definition handleColumnDrop :: "string \<Rightarrow> TaskListView \<Rightarrow> TaskListView" where
  "handleColumnDrop targetKey st =
     (case draggedColumn st of
        None \<Rightarrow> st
      | Some dragged \<Rightarrow>
          if dragged = [] \<or> dragged = targetKey then st
          else
            (let newOrder = columnOrder st;
                 draggedIdx = indexOf newOrder dragged;
                 targetIdx = indexOf newOrder targetKey;
                 newOrder1 = splice newOrder draggedIdx 1 [];
                 newOrder2 = splice newOrder1 targetIdx 0 [dragged]
             in st\<lparr>columnOrder := newOrder2, draggedColumn := None\<rparr>))"

text \<open>
  The order list with the element at index \<open>j\<close> taken out and put back at index \<open>i\<close>
  of what is left. The reorder theorems relate \<open>handleColumnDrop\<close> to it.
\<close>

definition moved :: "'a list \<Rightarrow> nat \<Rightarrow> nat \<Rightarrow> 'a list" where
  "moved xs j i =
     (let zs = take j xs @ drop (Suc j) xs in take i zs @ xs ! j # drop i zs)"

subsection \<open>Filtering\<close>

text \<open>
  \<^verbatim>\<open>String.prototype.toLowerCase\<close> on the ASCII letters; every other character is left as
  it is (the case mapping of characters beyond ASCII is outside the model).
\<close>

definition toLowerChar :: "char \<Rightarrow> char" where
  "toLowerChar c =
     (let n = (of_char c :: nat) in if 65 \<le> n \<and> n \<le> 90 then char_of (n + 32) else c)"

definition toLowerCase :: "string \<Rightarrow> string" where
  "toLowerCase s = map toLowerChar s"

text \<open>\<^verbatim>\<open>s.includes(sub)\<close>: \<open>sub\<close> occurs in \<open>s\<close> as a contiguous run.\<close>

fun String_includes :: "string \<Rightarrow> string \<Rightarrow> bool" where
  "String_includes [] sub = (sub = [])"
| "String_includes (c # cs) sub = (prefix sub (c # cs) \<or> String_includes cs sub)"

text \<open>
  \<^verbatim>\<open>(task as any)[key]\<close>: the own properties of a Task object, \<open>None\<close> for \<^verbatim>\<open>undefined\<close>.
  Properties inherited from \<^verbatim>\<open>Object.prototype\<close> (a key such as \<^verbatim>\<open>constructor\<close>) are outside
  the model.
\<close>

definition Task_field :: "Task \<Rightarrow> string \<Rightarrow> string option" where
  "Task_field task k =
     (if k = ''id'' then Some (Task.id task)
      else if k = ''title'' then Some (Task.title task)
      else if k = ''description'' then Some (Task.description task)
      else if k = ''status'' then Some (TaskStatus_str (Task.status task))
      else if k = ''priority'' then Some (Priority_str (Task.priority task))
      else if k = ''startDate'' then Some (Task.startDate task)
      else if k = ''dueDate'' then Some (Task.dueDate task)
      else if k = ''closedDate'' then Task.closedDate task
      else if k = ''assignee'' then Some (Task.assignee task)
      else if k = ''type'' then Some (TaskType_str (Task.type task))
      else None)"

definition Issue_field :: "Issue \<Rightarrow> string \<Rightarrow> string option" where
  "Issue_field issue k =
     (if k = ''id'' then Some (Issue.id issue)
      else if k = ''title'' then Some (Issue.title issue)
      else if k = ''description'' then Some (Issue.description issue)
      else if k = ''status'' then Some (IssueStatus_str (Issue.status issue))
      else if k = ''priority'' then Some (Priority_str (Issue.priority issue))
      else if k = ''dueDate'' then Some (Issue.dueDate issue)
      else if k = ''closedDate'' then Issue.closedDate issue
      else if k = ''dateOpened'' then Some (Issue.dateOpened issue)
      else if k = ''reportedBy'' then Some (Issue.reportedBy issue)
      else if k = ''assignedTo'' then Some (Issue.assignedTo issue)
      else None)"

text \<open>
  \<^verbatim>\<open>String(v || '')\<close>: \<^verbatim>\<open>undefined\<close> and the empty string both give the empty string, any
  other string itself.
\<close>

definition String_or_empty :: "string option \<Rightarrow> string" where
  "String_or_empty v = (case v of None \<Rightarrow> [] | Some s \<Rightarrow> s)"

text \<open>The callback of \<^verbatim>\<open>every\<close> in \<^verbatim>\<open>filteredTasks\<close>, at one entry \<^verbatim>\<open>[key, value]\<close>.\<close>

definition taskPasses :: "Task \<Rightarrow> string \<times> string \<Rightarrow> bool" where
  "taskPasses task e =
     (case e of (k, v) \<Rightarrow>
        if v = [] then True
        else if k = ''status'' then TaskStatus_str (Task.status task) = v
        else if k = ''priority'' then Priority_str (Task.priority task) = v
        else (let itemVal = toLowerCase (String_or_empty (Task_field task k))
              in String_includes itemVal (toLowerCase v)))"

definition filteredTasks :: "Task list \<Rightarrow> (string \<times> string) list \<Rightarrow> Task list" where
  "filteredTasks tasks filters = filter (\<lambda>task. list_all (taskPasses task) filters) tasks"

text \<open>The same callback in \<^verbatim>\<open>filteredIssues\<close> of IssueLogView.\<close>

definition issuePasses :: "Issue \<Rightarrow> string \<times> string \<Rightarrow> bool" where
  "issuePasses issue e =
     (case e of (k, v) \<Rightarrow>
        if v = [] then True
        else if k = ''status'' then IssueStatus_str (Issue.status issue) = v
        else if k = ''priority'' then Priority_str (Issue.priority issue) = v
        else (let itemVal = toLowerCase (String_or_empty (Issue_field issue k))
              in String_includes itemVal (toLowerCase v)))"

definition filteredIssues :: "Issue list \<Rightarrow> (string \<times> string) list \<Rightarrow> Issue list" where
  "filteredIssues issues filters = filter (\<lambda>issue. list_all (issuePasses issue) filters) issues"

text \<open>
  The filter policy in the words of the specification, for one record given by the string
  of its status, the string of its priority and its field lookup: the entry is inactive
  (empty value), or it is an exact match on status or priority, or the lowered value is a
  contiguous part (\<open>sublist\<close>) of the lowered field string, a missing field counting as
  the empty string.
\<close>

definition spec_entry_holds ::
  "string \<Rightarrow> string \<Rightarrow> (string \<Rightarrow> string option) \<Rightarrow> string \<times> string \<Rightarrow> bool" where
  "spec_entry_holds statusStr priorityStr field e =
     (snd e = [] \<or>
      (if fst e = ''status'' then statusStr = snd e
       else if fst e = ''priority'' then priorityStr = snd e
       else sublist (toLowerCase (snd e))
              (toLowerCase (case field (fst e) of None \<Rightarrow> [] | Some s \<Rightarrow> s))))"

subsection \<open>Selection\<close>

definition toggleSelection :: "string \<Rightarrow> TaskListView \<Rightarrow> TaskListView" where
  "toggleSelection i st =
     (let newSet = selectedIds st
      in st\<lparr>selectedIds := (if i |\<in>| newSet then newSet |-| {|i|} else finsert i newSet)\<rparr>)"

text \<open>
  \<^verbatim>\<open>toggleAllSelection\<close> reads \<^verbatim>\<open>filteredTasks\<close>, which the component computes from its
  \<^verbatim>\<open>tasks\<close> prop and \<^verbatim>\<open>activeFilters\<close>.
\<close>

definition toggleAllSelection :: "Task list \<Rightarrow> TaskListView \<Rightarrow> TaskListView" where
  "toggleAllSelection tasks st =
     (let visible = filteredTasks tasks (activeFilters st)
      in if fcard (selectedIds st) = length visible \<and> length visible > 0
         then st\<lparr>selectedIds := {||}\<rparr>
         else st\<lparr>selectedIds := fset_of_list (map Task.id visible)\<rparr>)"

definition isAllSelected :: "Task list \<Rightarrow> TaskListView \<Rightarrow> bool" where
  "isAllSelected tasks st =
     (let visible = filteredTasks tasks (activeFilters st)
      in length visible > 0 \<and> fcard (selectedIds st) = length visible)"

subsection \<open>Resizing\<close>

text \<open>
  \<^verbatim>\<open>startResize\<close>: the pointer goes down on the resize handle of column \<open>k\<close> at \<open>clientX\<close>.
  The start width is read from the widths map and is \<^verbatim>\<open>undefined\<close> for a column the map
  has no entry for.
\<close>

definition startResize :: "real \<Rightarrow> string \<Rightarrow> TaskListView \<Rightarrow> TaskListView" where
  "startResize clientX k st =
     st\<lparr>resizing := Some \<lparr>key = k, startX = clientX, startWidth = columnWidths st k\<rparr>\<rparr>"

text \<open>
  The number an operand of \<^verbatim>\<open>+\<close> is converted to, \<open>None\<close> for NaN: \<^verbatim>\<open>undefined\<close> gives NaN
  and \<^verbatim>\<open>null\<close> gives 0.
\<close>

fun ToNumber :: "jsvalue option \<Rightarrow> real option" where
  "ToNumber None = None"
| "ToNumber (Some (Number w)) = Some w"
| "ToNumber (Some NaN) = None"
| "ToNumber (Some Null) = Some 0"

text \<open>
  \<^verbatim>\<open>Math.max(80, v)\<close> for \<open>v\<close> a finite number or NaN (\<open>None\<close>): NaN when an argument is
  NaN.
\<close>

fun Math_max_80 :: "real option \<Rightarrow> jsvalue" where
  "Math_max_80 None = NaN"
| "Math_max_80 (Some v) = Number (max 80 v)"

text \<open>
  \<^verbatim>\<open>handleMouseMove\<close> and \<^verbatim>\<open>handleMouseUp\<close> of the resize effect (the same text in both
  views); \<open>clientX\<close> is \<^verbatim>\<open>e.clientX\<close>.
\<close>

definition handleMouseMove :: "real \<Rightarrow> TaskListView \<Rightarrow> TaskListView" where
  "handleMouseMove clientX st =
     (case resizing st of
        None \<Rightarrow> st
      | Some r \<Rightarrow>
          (let diff = clientX - startX r;
               newWidth = Math_max_80 (map_option (\<lambda>w. w + diff) (ToNumber (startWidth r)))
           in st\<lparr>columnWidths := (columnWidths st)(key r \<mapsto> newWidth)\<rparr>))"

definition handleMouseUp :: "TaskListView \<Rightarrow> TaskListView" where
  "handleMouseUp st = st\<lparr>resizing := None\<rparr>"

subsection \<open>Persisted layout\<close>

text \<open>
  A text held by \<^verbatim>\<open>localStorage\<close> is represented by what \<^verbatim>\<open>JSON.parse\<close> makes of it:
  \<open>JsonText v\<close> is a text that parses to the JSON value \<open>v\<close>, \<open>OtherText t\<close> a text \<open>t\<close> on
  which \<^verbatim>\<open>JSON.parse\<close> throws (the empty string among them). A JSON text is never empty,
  so only \<open>OtherText []\<close> is falsy. The JSON values of the model are the two shapes the
  grids write: an object whose members are numbers or \<^verbatim>\<open>null\<close>, as a map, and an array of
  strings, as a list. Stored texts of any other shape are outside the model.
\<close>

datatype jsonvalue = JNumber real | JNull

datatype 'a item = JsonText 'a | OtherText string

definition truthy :: "'a item \<Rightarrow> bool" where
  "truthy saved = (saved \<noteq> OtherText [])"

text \<open>\<^verbatim>\<open>JSON.parse\<close>: \<open>None\<close> when it throws a SyntaxError.\<close>

fun JSON_parse :: "'a item \<Rightarrow> 'a option" where
  "JSON_parse (JsonText v) = Some v"
| "JSON_parse (OtherText t) = None"

text \<open>
  \<^verbatim>\<open>JSON.stringify\<close> on a widths object: a finite number is written as it is, NaN and
  \<^verbatim>\<open>null\<close> are both written as \<^verbatim>\<open>null\<close>. On an array of strings it writes the strings.
\<close>

fun stringify_value :: "jsvalue \<Rightarrow> jsonvalue" where
  "stringify_value (Number w) = JNumber w"
| "stringify_value NaN = JNull"
| "stringify_value Null = JNull"

definition JSON_stringify_widths :: "(string \<rightharpoonup> jsvalue) \<Rightarrow> (string \<rightharpoonup> jsonvalue) item" where
  "JSON_stringify_widths widths = JsonText (\<lambda>k. map_option stringify_value (widths k))"

definition JSON_stringify_order :: "string list \<Rightarrow> string list item" where
  "JSON_stringify_order order = JsonText order"

text \<open>The run-time object a parsed widths object is.\<close>

fun value_of_json :: "jsonvalue \<Rightarrow> jsvalue" where
  "value_of_json (JNumber w) = Number w"
| "value_of_json JNull = Null"

definition widths_of_json :: "(string \<rightharpoonup> jsonvalue) \<Rightarrow> (string \<rightharpoonup> jsvalue)" where
  "widths_of_json obj = (\<lambda>k. map_option value_of_json (obj k))"

text \<open>
  The four \<^verbatim>\<open>localStorage\<close> entries of the two grids; \<open>None\<close> is an entry never written
  (\<^verbatim>\<open>getItem\<close> returns \<^verbatim>\<open>null\<close>).
\<close>

record Storage =
  taskflow_ui_v1 :: "(string \<rightharpoonup> jsonvalue) item option"
  taskflow_ui_order_v1 :: "string list item option"
  taskflow_issue_ui_v1 :: "(string \<rightharpoonup> jsonvalue) item option"
  taskflow_issue_order_v1 :: "string list item option"

definition defaultTaskColumnWidths :: "string \<rightharpoonup> jsvalue" where
  "defaultTaskColumnWidths =
     map_of [(''title'', Number 250), (''description'', Number 350), (''status'', Number 120),
             (''priority'', Number 120), (''assignee'', Number 160), (''startDate'', Number 120),
             (''dueDate'', Number 120), (''closedDate'', Number 120)]"

definition defaultTaskColumnOrder :: "string list" where
  "defaultTaskColumnOrder =
     [''title'', ''description'', ''status'', ''priority'', ''assignee'', ''startDate'',
      ''dueDate'', ''closedDate'']"

definition defaultIssueColumnWidths :: "string \<rightharpoonup> jsvalue" where
  "defaultIssueColumnWidths =
     map_of [(''title'', Number 250), (''description'', Number 300), (''status'', Number 120),
             (''priority'', Number 120), (''dateOpened'', Number 120), (''dueDate'', Number 120),
             (''closedDate'', Number 120), (''reportedBy'', Number 150),
             (''assignedTo'', Number 150)]"

definition defaultIssueColumnOrder :: "string list" where
  "defaultIssueColumnOrder =
     [''title'', ''description'', ''status'', ''priority'', ''dateOpened'', ''dueDate'',
      ''closedDate'', ''reportedBy'', ''assignedTo'']"

text \<open>
  The \<^verbatim>\<open>useState\<close> initialiser of the widths of TaskListView:
  \<^verbatim>\<open>try { return saved ? JSON.parse(saved) : defaults } catch (e) { return defaults }\<close>.
  What was parsed is returned as it is; a column the parsed object has no entry for gets
  none.
\<close>

definition loadColumnWidths :: "Storage \<Rightarrow> (string \<rightharpoonup> jsvalue)" where
  "loadColumnWidths store =
     (case taskflow_ui_v1 store of
        None \<Rightarrow> defaultTaskColumnWidths
      | Some saved \<Rightarrow>
          if truthy saved
          then (case JSON_parse saved of
                  Some parsed \<Rightarrow> widths_of_json parsed
                | None \<Rightarrow> defaultTaskColumnWidths)
          else defaultTaskColumnWidths)"

text \<open>
  The initialiser of the order of TaskListView: inside the \<^verbatim>\<open>try\<close>, a truthy saved text is
  parsed and gets \<^verbatim>\<open>closedDate\<close> appended when it lacks it; a falsy text, no text and a
  text that does not parse fall through to the default order.
\<close>

definition loadColumnOrder :: "Storage \<Rightarrow> string list" where
  "loadColumnOrder store =
     (case taskflow_ui_order_v1 store of
        None \<Rightarrow> defaultTaskColumnOrder
      | Some saved \<Rightarrow>
          if truthy saved
          then (case JSON_parse saved of
                  Some parsed \<Rightarrow>
                    if ''closedDate'' \<notin> set parsed then parsed @ [''closedDate''] else parsed
                | None \<Rightarrow> defaultTaskColumnOrder)
          else defaultTaskColumnOrder)"

text \<open>
  The \<^verbatim>\<open>useEffect\<close> hooks of TaskListView that write the layout:
  \<^verbatim>\<open>localStorage.setItem(key, JSON.stringify(value))\<close>.
\<close>

definition saveColumnWidths :: "(string \<rightharpoonup> jsvalue) \<Rightarrow> Storage \<Rightarrow> Storage" where
  "saveColumnWidths widths store = store\<lparr>taskflow_ui_v1 := Some (JSON_stringify_widths widths)\<rparr>"

definition saveColumnOrder :: "string list \<Rightarrow> Storage \<Rightarrow> Storage" where
  "saveColumnOrder order store = store\<lparr>taskflow_ui_order_v1 := Some (JSON_stringify_order order)\<rparr>"

text \<open>The same for IssueLogView, whose order is loaded as it was parsed.\<close>

definition loadIssueColumnWidths :: "Storage \<Rightarrow> (string \<rightharpoonup> jsvalue)" where
  "loadIssueColumnWidths store =
     (case taskflow_issue_ui_v1 store of
        None \<Rightarrow> defaultIssueColumnWidths
      | Some saved \<Rightarrow>
          if truthy saved
          then (case JSON_parse saved of
                  Some parsed \<Rightarrow> widths_of_json parsed
                | None \<Rightarrow> defaultIssueColumnWidths)
          else defaultIssueColumnWidths)"

definition loadIssueColumnOrder :: "Storage \<Rightarrow> string list" where
  "loadIssueColumnOrder store =
     (case taskflow_issue_order_v1 store of
        None \<Rightarrow> defaultIssueColumnOrder
      | Some saved \<Rightarrow>
          if truthy saved
          then (case JSON_parse saved of
                  Some parsed \<Rightarrow> parsed
                | None \<Rightarrow> defaultIssueColumnOrder)
          else defaultIssueColumnOrder)"

definition saveIssueColumnWidths :: "(string \<rightharpoonup> jsvalue) \<Rightarrow> Storage \<Rightarrow> Storage" where
  "saveIssueColumnWidths widths store =
     store\<lparr>taskflow_issue_ui_v1 := Some (JSON_stringify_widths widths)\<rparr>"

definition saveIssueColumnOrder :: "string list \<Rightarrow> Storage \<Rightarrow> Storage" where
  "saveIssueColumnOrder order store =
     store\<lparr>taskflow_issue_order_v1 := Some (JSON_stringify_order order)\<rparr>"

text \<open>The state TaskListView starts in, given the storage.\<close>

definition initialTaskListView :: "Storage \<Rightarrow> TaskListView" where
  "initialTaskListView store =
     \<lparr>selectedIds = {||},
      columnWidths = loadColumnWidths store,
      columnOrder = loadColumnOrder store,
      resizing = None,
      draggedColumn = None,
      activeFilters = [],
      filterOpen = None\<rparr>"

definition emptyStorage :: Storage where
  "emptyStorage =
     \<lparr>taskflow_ui_v1 = None, taskflow_ui_order_v1 = None,
      taskflow_issue_ui_v1 = None, taskflow_issue_order_v1 = None\<rparr>"

section \<open>GanttView\<close>

subsection \<open>Zoom and granularity\<close>

datatype ViewMode = Daily | Monthly

definition viewMode :: "real \<Rightarrow> ViewMode" where
  "viewMode pixelsPerDay = (if pixelsPerDay \<ge> 18 then Daily else Monthly)"

text \<open>
  The updates of \<^verbatim>\<open>pixelsPerDay\<close>: the zoom buttons (\<^verbatim>\<open>prev * 0.8\<close>, \<^verbatim>\<open>prev * 1.25\<close>) and
  the two presets. The slider stores the value of its input element, which the element
  keeps between 2 and 100. The state starts at 40.
\<close>

definition zoomOut :: "real \<Rightarrow> real" where
  "zoomOut prev = max (prev * (8 / 10)) 2"

definition zoomIn :: "real \<Rightarrow> real" where
  "zoomIn prev = min (prev * (125 / 100)) 100"

definition presetDaily :: real where
  "presetDaily = 40"

definition presetMonthly :: real where
  "presetMonthly = 5"

subsection \<open>Dates\<close>

text \<open>
  \<^verbatim>\<open>new Date(s).getTime()\<close> for the format \<^verbatim>\<open>types.ts\<close> documents for \<^verbatim>\<open>startDate\<close> and
  \<^verbatim>\<open>dueDate\<close>, \<^verbatim>\<open>YYYY-MM-DD\<close>: a date-only string is read as midnight UTC of that calendar
  day, in milliseconds since 1970-01-01. \<open>None\<close> is the time value NaN of an invalid date.
  Any string that is not a calendar date in this format is modelled as invalid (engines
  differ on what else they accept).
\<close>

definition digitVal :: "char \<Rightarrow> int option" where
  "digitVal c =
     (let n = (of_char c :: nat) in if 48 \<le> n \<and> n \<le> 57 then Some (int n - 48) else None)"

definition isLeapYear :: "int \<Rightarrow> bool" where
  "isLeapYear yr = (yr mod 4 = 0 \<and> (yr mod 100 \<noteq> 0 \<or> yr mod 400 = 0))"

definition daysInMonth :: "int \<Rightarrow> int \<Rightarrow> int" where
  "daysInMonth yr mo =
     (if mo = 2 then (if isLeapYear yr then 29 else 28)
      else if mo = 4 \<or> mo = 6 \<or> mo = 9 \<or> mo = 11 then 30
      else 31)"

definition parseISODate :: "string \<Rightarrow> (int \<times> int \<times> int) option" where
  "parseISODate s =
     (case s of
        [y1, y2, y3, y4, h1, m1, m2, h2, d1, d2] \<Rightarrow>
          (case (digitVal y1, digitVal y2, digitVal y3, digitVal y4,
                 digitVal m1, digitVal m2, digitVal d1, digitVal d2) of
             (Some a, Some b, Some c, Some d, Some e, Some f, Some g, Some h) \<Rightarrow>
               (let yr = 1000 * a + 100 * b + 10 * c + d;
                    mo = 10 * e + f;
                    dy = 10 * g + h
                in if h1 = CHR ''-'' \<and> h2 = CHR ''-'' \<and> 1 \<le> mo \<and> mo \<le> 12
                      \<and> 1 \<le> dy \<and> dy \<le> daysInMonth yr mo
                   then Some (yr, mo, dy) else None)
           | _ \<Rightarrow> None)
      | _ \<Rightarrow> None)"

text \<open>The day number of a calendar date: days since 1970-01-01 in the Gregorian calendar.\<close>

definition daysFromCivil :: "int \<Rightarrow> int \<Rightarrow> int \<Rightarrow> int" where
  "daysFromCivil yr mo dy =
     (let y0 = (if mo \<le> 2 then yr - 1 else yr);
          era = y0 div 400;
          yoe = y0 - era * 400;
          mp = (if mo > 2 then mo - 3 else mo + 9);
          doy = (153 * mp + 2) div 5 + dy - 1;
          doe = yoe * 365 + yoe div 4 - yoe div 100 + doy
      in era * 146097 + doe - 719468)"

text \<open>The day number of a date string, \<open>None\<close> when it is not a date.\<close>

definition dayNumber :: "string \<Rightarrow> int option" where
  "dayNumber s =
     (case parseISODate s of
        None \<Rightarrow> None
      | Some (yr, mo, dy) \<Rightarrow> Some (daysFromCivil yr mo dy))"

definition Date_getTime :: "string \<Rightarrow> int option" where
  "Date_getTime s = map_option (\<lambda>n. n * 86400000) (dayNumber s)"

subsection \<open>Task positions\<close>

text \<open>
  The value stored per task id; \<open>x\<close> and \<open>width\<close> are \<open>None\<close> when the arithmetic gives NaN
  (an invalid date on the way).
\<close>

record Position =
  x :: "real option"
  width :: "real option"
  y :: real

definition ROW_HEIGHT :: real where
  "ROW_HEIGHT = 48"

text \<open>
  The body of \<^verbatim>\<open>sortedTasks.forEach((task, index) => ...)\<close> in \<^verbatim>\<open>taskPositions\<close>.
  \<open>rangeStart\<close> is \<^verbatim>\<open>startDate.getTime()\<close> of the view (the start of the visible range),
  \<open>PIXELS_PER_DAY\<close> the zoom factor.
\<close>

definition taskPosition :: "int option \<Rightarrow> real \<Rightarrow> Task \<Rightarrow> nat \<Rightarrow> Position" where
  "taskPosition rangeStart PIXELS_PER_DAY task index =
     (let tStart = Date_getTime (Task.startDate task);
          tEnd = Date_getTime (Task.dueDate task);
          startOffset =
            (case (tStart, rangeStart) of
               (Some a, Some b) \<Rightarrow> Some (real_of_int (a - b) / (1000 * 60 * 60 * 24))
             | _ \<Rightarrow> None);
          duration =
            (case (tEnd, tStart) of
               (Some a, Some b) \<Rightarrow> Some (real_of_int (a - b) / (1000 * 60 * 60 * 24) + 1)
             | _ \<Rightarrow> None);
          left = map_option (\<lambda>v. v * PIXELS_PER_DAY) startOffset;
          wid = map_option (\<lambda>v. v * PIXELS_PER_DAY) duration
      in \<lparr>x = left, width = wid, y = real index * ROW_HEIGHT + 24\<rparr>)"

text \<open>
  \<^verbatim>\<open>taskPositions\<close>: a \<^verbatim>\<open>Map\<close> from task id to position, filled in the order of
  \<^verbatim>\<open>sortedTasks\<close>; a later task with the same id overwrites an earlier one.
\<close>

definition taskPositions :: "Task list \<Rightarrow> int option \<Rightarrow> real \<Rightarrow> (string \<rightharpoonup> Position)" where
  "taskPositions sortedTasks rangeStart PIXELS_PER_DAY =
     fold (\<lambda>(index, task) positions.
             positions(Task.id task \<mapsto> taskPosition rangeStart PIXELS_PER_DAY task index))
          (enumerate 0 sortedTasks) Map.empty"

subsection \<open>Rendering of a task row's bar\<close>

text \<open>
  What the row of a task shows on the timeline: the milestone diamond with its inline
  \<^verbatim>\<open>left\<close>, the task bar with its inline \<^verbatim>\<open>left\<close> and \<^verbatim>\<open>width\<close>, or nothing
  (\<^verbatim>\<open>pos.width > 0 && ...\<close> is false, also for NaN).
\<close>

datatype BarElement = MilestoneDiamond "real option" | TaskBar "real option" real | NoBar

text \<open>
  The diamond's size comes from its class list \<^verbatim>\<open>w-7 h-7\<close>, not from an inline style:
  1.75rem, 28 pixels at the default root font size.
\<close>

definition MILESTONE_SIZE :: real where
  "MILESTONE_SIZE = 28"

text \<open>\<open>None\<close> is \<^verbatim>\<open>return null\<close> for a task without a position.\<close>

definition renderBar :: "Task \<Rightarrow> (string \<rightharpoonup> Position) \<Rightarrow> BarElement option" where
  "renderBar task positions =
     (case positions (Task.id task) of
        None \<Rightarrow> None
      | Some pos \<Rightarrow>
          Some (if Task.type task = Milestone
                then MilestoneDiamond (map_option (\<lambda>v. v - 14) (x pos))
                else (case width pos of
                        Some w \<Rightarrow> if w > 0 then TaskBar (x pos) w else NoBar
                      | None \<Rightarrow> NoBar)))"

fun renderedWidth :: "BarElement \<Rightarrow> real option" where
  "renderedWidth (MilestoneDiamond l) = Some MILESTONE_SIZE"
| "renderedWidth (TaskBar l w) = Some w"
| "renderedWidth NoBar = None"

section \<open>Example inputs\<close>

text \<open>A task list view with a given column order and drag state, otherwise as it starts.\<close>

definition exampleView :: "string list \<Rightarrow> string option \<Rightarrow> TaskListView" where
  "exampleView order dragged =
     (initialTaskListView emptyStorage)\<lparr>columnOrder := order, draggedColumn := dragged\<rparr>"

text \<open>
  A layout as a version of the grid without the \<open>closedDate\<close> column saved it: seven
  widths and the order of the seven columns.
\<close>

definition legacyStorage :: Storage where
  "legacyStorage =
     \<lparr>taskflow_ui_v1 =
        Some (JsonText (map_of
          [(''title'', JNumber 250), (''description'', JNumber 350), (''status'', JNumber 120),
           (''priority'', JNumber 120), (''assignee'', JNumber 160),
           (''startDate'', JNumber 120), (''dueDate'', JNumber 120)])),
      taskflow_ui_order_v1 =
        Some (JsonText [''title'', ''description'', ''status'', ''priority'', ''assignee'',
                        ''startDate'', ''dueDate'']),
      taskflow_issue_ui_v1 = None,
      taskflow_issue_order_v1 = None\<rparr>"

text \<open>
  The task list opened on that layout, after the pointer went down on the resize handle
  of the \<open>closedDate\<close> column at 250 and moved to 260.
\<close>

definition legacyResized :: TaskListView where
  "legacyResized =
     handleMouseMove 260 (startResize 250 ''closedDate'' (initialTaskListView legacyStorage))"

text \<open>A task in status Doing, assigned to Ann, with the given remaining fields.\<close>

definition exampleTask ::
  "string \<Rightarrow> string \<Rightarrow> Priority \<Rightarrow> string \<Rightarrow> string \<Rightarrow> TaskType \<Rightarrow> Task" where
  "exampleTask i ttl pr s d ty =
     \<lparr>Task.id = i, title = ttl, description = [], status = Doing, priority = pr,
      startDate = s, dueDate = d, closedDate = None, assignee = ''Ann'', type = ty\<rparr>"

section \<open>Column reorder\<close>

subsection \<open>The array operations\<close>

lemma indexOf_absent: "a \<notin> set xs \<Longrightarrow> indexOf xs a = -1"
  by (induction xs) (auto simp: Let_def)

lemma indexOf_present:
  "a \<in> set xs \<Longrightarrow> 0 \<le> indexOf xs a \<and> indexOf xs a < int (length xs)
     \<and> xs ! nat (indexOf xs a) = a \<and> a \<notin> set (take (nat (indexOf xs a)) xs)"
proof (induction xs)
  case Nil
  then show ?case by simp
next
  case (Cons b bs)
  show ?case
  proof (cases "b = a")
    case True
    then show ?thesis by simp
  next
    case False
    with Cons.prems have "a \<in> set bs" by simp
    from Cons.IH [OF this] False show ?thesis
      by (auto simp: Let_def nat_add_distrib)
  qed
qed

lemma splice_delete_one:
  "j < length xs \<Longrightarrow> splice xs (int j) 1 [] = take j xs @ drop (Suc j) xs"
  by (simp add: splice_def Let_def nat_add_distrib)

lemma splice_insert_one:
  "i \<le> length xs \<Longrightarrow> splice xs (int i) 0 [d] = take i xs @ d # drop i xs"
  by (simp add: splice_def Let_def)

subsection \<open>The drop handler\<close>

lemma handleColumnDrop_order:
  "draggedColumn st = Some d \<Longrightarrow> d \<noteq> [] \<Longrightarrow> d \<noteq> t \<Longrightarrow>
     columnOrder (handleColumnDrop t st) =
       splice (splice (columnOrder st) (indexOf (columnOrder st) d) 1 [])
              (indexOf (columnOrder st) t) 0 [d]"
  by (simp add: handleColumnDrop_def Let_def)

lemma handleColumnDrop_moved:
  assumes "draggedColumn st = Some d" "d \<noteq> []" "d \<noteq> t"
    and "d \<in> set (columnOrder st)" "t \<in> set (columnOrder st)"
  shows "columnOrder (handleColumnDrop t st) =
           moved (columnOrder st) (nat (indexOf (columnOrder st) d)) (nat (indexOf (columnOrder st) t))"
proof -
  let ?xs = "columnOrder st"
  let ?j = "nat (indexOf ?xs d)" and ?i = "nat (indexOf ?xs t)"
  from indexOf_present [OF assms(4)] have j: "indexOf ?xs d = int ?j" "?j < length ?xs" "?xs ! ?j = d"
    by auto
  from indexOf_present [OF assms(5)] have i: "indexOf ?xs t = int ?i" "?i < length ?xs"
    by auto
  let ?zs = "take ?j ?xs @ drop (Suc ?j) ?xs"
  have del: "splice ?xs (indexOf ?xs d) 1 [] = ?zs"
    using splice_delete_one [OF j(2)] j(1) by simp
  have "?i \<le> length ?zs" using i(2) j(2) by simp
  from splice_insert_one [OF this, of d]
  have ins: "splice ?zs (indexOf ?xs t) 0 [d] = take ?i ?zs @ d # drop ?i ?zs"
    using i(1) by simp
  show ?thesis
    unfolding handleColumnDrop_order [OF assms(1-3)] del ins moved_def Let_def j(3) ..
qed

lemma moved_mset: "j < length xs \<Longrightarrow> mset (moved xs j i) = mset xs"
proof -
  assume j: "j < length xs"
  let ?zs = "take j xs @ drop (Suc j) xs"
  have "mset (moved xs j i) = mset (take i ?zs @ drop i ?zs) + {#xs ! j#}"
    unfolding moved_def Let_def by (simp only: mset_append mset.simps) simp
  also have "\<dots> = mset ?zs + {#xs ! j#}" by (simp only: append_take_drop_id)
  also have "\<dots> = mset (take j xs @ xs ! j # drop (Suc j) xs)" by simp
  also have "\<dots> = mset xs" using id_take_nth_drop [OF j] by simp
  finally show ?thesis .
qed


lemma ins_nth: "i \<le> length zs \<Longrightarrow> (take i zs @ d # drop i zs) ! i = d"
  by (simp add: nth_append)

lemma ins_rest:
  "i \<le> length zs \<Longrightarrow>
     take i (take i zs @ d # drop i zs) @ drop (Suc i) (take i zs @ d # drop i zs) = zs"
  by simp

lemma ins_after: "i < length zs \<Longrightarrow> (take i zs @ d # drop i zs) ! Suc i = zs ! i"
  by (simp add: nth_append)

lemma ins_before:
  "0 < i \<Longrightarrow> i \<le> length zs \<Longrightarrow> (take i zs @ d # drop i zs) ! (i - 1) = zs ! (i - 1)"
  by (simp add: nth_append)

lemma del_nth_lt: "i < j \<Longrightarrow> j < length xs \<Longrightarrow> (take j xs @ drop (Suc j) xs) ! i = xs ! i"
  by (simp add: nth_append)

lemma del_nth_ge:
  "j \<le> k \<Longrightarrow> Suc k < length xs \<Longrightarrow> (take j xs @ drop (Suc j) xs) ! k = xs ! Suc k"
  by (simp add: nth_append)

lemma moved_nth: "j < length xs \<Longrightarrow> i < length xs \<Longrightarrow> moved xs j i ! i = xs ! j"
  unfolding moved_def Let_def by (rule ins_nth) simp

lemma moved_rest:
  "j < length xs \<Longrightarrow> i < length xs \<Longrightarrow>
     take i (moved xs j i) @ drop (Suc i) (moved xs j i) = take j xs @ drop (Suc j) xs"
  unfolding moved_def Let_def by (rule ins_rest) simp

lemma moved_left: "j < length xs \<Longrightarrow> i < j \<Longrightarrow> moved xs j i ! Suc i = xs ! i"
proof -
  assume j: "j < length xs" and ij: "i < j"
  let ?zs = "take j xs @ drop (Suc j) xs"
  have "i < length ?zs" using j ij by simp
  from ins_after [OF this] have "moved xs j i ! Suc i = ?zs ! i"
    by (simp only: moved_def Let_def)
  also have "\<dots> = xs ! i" by (rule del_nth_lt [OF ij j])
  finally show ?thesis .
qed

lemma moved_right: "i < length xs \<Longrightarrow> j < i \<Longrightarrow> moved xs j i ! (i - 1) = xs ! i"
proof -
  assume i: "i < length xs" and ji: "j < i"
  let ?zs = "take j xs @ drop (Suc j) xs"
  have "0 < i" "i \<le> length ?zs" using i ji by simp_all
  from ins_before [OF this] have "moved xs j i ! (i - 1) = ?zs ! (i - 1)"
    by (simp only: moved_def Let_def)
  also have "\<dots> = xs ! Suc (i - 1)" by (rule del_nth_ge) (use i ji in simp_all)
  also have "\<dots> = xs ! i" using ji by simp
  finally show ?thesis .
qed

lemma exampleView_simps:
  "columnOrder (exampleView order dragged) = order"
  "draggedColumn (exampleView order dragged) = dragged"
  by (simp_all add: exampleView_def initialTaskListView_def)

lemma drop_D_on_B:
  "columnOrder (handleColumnDrop ''B'' (exampleView [''A'', ''B'', ''C'', ''D''] (Some ''D'')))
     = [''A'', ''D'', ''B'', ''C'']"
proof -
  have "columnOrder (handleColumnDrop ''B'' (exampleView [''A'', ''B'', ''C'', ''D''] (Some ''D'')))
     = splice (splice [''A'', ''B'', ''C'', ''D''] (indexOf [''A'', ''B'', ''C'', ''D''] ''D'') 1 [])
              (indexOf [''A'', ''B'', ''C'', ''D''] ''B'') 0 [''D'']"
    by (simp add: handleColumnDrop_order exampleView_simps)
  also have "\<dots> = [''A'', ''D'', ''B'', ''C'']"
    by code_simp
  finally show ?thesis .
qed

lemma drop_A_on_C:
  "columnOrder (handleColumnDrop ''C'' (exampleView [''A'', ''B'', ''C'', ''D''] (Some ''A'')))
     = [''B'', ''C'', ''A'', ''D'']"
proof -
  have "columnOrder (handleColumnDrop ''C'' (exampleView [''A'', ''B'', ''C'', ''D''] (Some ''A'')))
     = splice (splice [''A'', ''B'', ''C'', ''D''] (indexOf [''A'', ''B'', ''C'', ''D''] ''A'') 1 [])
              (indexOf [''A'', ''B'', ''C'', ''D''] ''C'') 0 [''A'']"
    by (simp add: handleColumnDrop_order exampleView_simps)
  also have "\<dots> = [''B'', ''C'', ''A'', ''D'']"
    by code_simp
  finally show ?thesis .
qed

text \<open>
  Claim C1, as the code has it. When a column \<open>d\<close> is being dragged (\<open>d\<close> not the empty
  key) and is dropped on another column \<open>t\<close>, both in the order list, the new order is a
  permutation of the old one in which \<open>d\<close> sits at the index \<open>t\<close> had before the drop and
  all other columns keep their relative order (the order without index \<open>i\<close> is the old
  order without index \<open>j\<close>). So \<open>d\<close> lands immediately before \<open>t\<close> when it came from the
  right of \<open>t\<close>, and immediately after \<open>t\<close> when it came from the left. Dropping a column
  on itself changes nothing.
\<close>

theorem reorder_takes_target_index:
  "draggedColumn st = Some d \<Longrightarrow> d \<noteq> [] \<Longrightarrow> d \<noteq> t \<Longrightarrow>
   d \<in> set (columnOrder st) \<Longrightarrow> t \<in> set (columnOrder st) \<Longrightarrow>
   j = nat (indexOf (columnOrder st) d) \<Longrightarrow> i = nat (indexOf (columnOrder st) t) \<Longrightarrow>
   ys = columnOrder (handleColumnDrop t st) \<Longrightarrow>
     mset ys = mset (columnOrder st)
     \<and> ys ! i = d
     \<and> take i ys @ drop (Suc i) ys = take j (columnOrder st) @ drop (Suc j) (columnOrder st)
     \<and> (i < j \<longrightarrow> ys ! Suc i = t)
     \<and> (j < i \<longrightarrow> ys ! (i - 1) = t)
     \<and> handleColumnDrop d st = st"
proof -
  assume dr: "draggedColumn st = Some d" and ne: "d \<noteq> []" and dt: "d \<noteq> t"
    and din: "d \<in> set (columnOrder st)" and tin: "t \<in> set (columnOrder st)"
    and jdef: "j = nat (indexOf (columnOrder st) d)"
    and idef: "i = nat (indexOf (columnOrder st) t)"
    and ysdef: "ys = columnOrder (handleColumnDrop t st)"
  let ?xs = "columnOrder st"
  from indexOf_present [OF din] jdef have j: "j < length ?xs" "?xs ! j = d" by auto
  from indexOf_present [OF tin] idef have i: "i < length ?xs" "?xs ! i = t" by auto
  have ys: "ys = moved ?xs j i"
    using handleColumnDrop_moved [OF dr ne dt din tin] jdef idef ysdef by simp
  have "mset ys = mset ?xs" using ys moved_mset [OF j(1)] by simp
  moreover have "ys ! i = d" using ys moved_nth [OF j(1) i(1)] j(2) by simp
  moreover have "take i ys @ drop (Suc i) ys = take j ?xs @ drop (Suc j) ?xs"
    using ys moved_rest [OF j(1) i(1)] by simp
  moreover have "i < j \<longrightarrow> ys ! Suc i = t"
    using ys moved_left [OF j(1)] i(2) by simp
  moreover have "j < i \<longrightarrow> ys ! (i - 1) = t"
    using ys moved_right [OF i(1)] i(2) by simp
  moreover have "handleColumnDrop d st = st"
    using dr by (simp add: handleColumnDrop_def)
  ultimately show ?thesis by blast
qed

theorem reorder_takes_target_index_witness:
  "columnOrder (handleColumnDrop ''B'' (exampleView [''A'', ''B'', ''C'', ''D''] (Some ''D'')))
     = [''A'', ''D'', ''B'', ''C'']
   \<and> mset [''A'', ''D'', ''B'', ''C''] = mset [''A'', ''B'', ''C'', ''D'']
   \<and> [''A'', ''D'', ''B'', ''C''] ! 1 = ''D''
   \<and> [''A'', ''D'', ''B'', ''C''] ! Suc 1 = ''B''
   \<and> handleColumnDrop ''D'' (exampleView [''A'', ''B'', ''C'', ''D''] (Some ''D''))
       = exampleView [''A'', ''B'', ''C'', ''D''] (Some ''D'')
   \<and> columnOrder (handleColumnDrop ''C'' (exampleView [''A'', ''B'', ''C'', ''D''] (Some ''A'')))
     = [''B'', ''C'', ''A'', ''D'']
   \<and> [''B'', ''C'', ''A'', ''D''] ! 2 = ''A''
   \<and> [''B'', ''C'', ''A'', ''D''] ! (2 - 1) = ''C''"
proof -
  let ?st = "exampleView [''A'', ''B'', ''C'', ''D''] (Some ''D'')"
  have h1: "draggedColumn ?st = Some ''D''" by (simp add: exampleView_simps)
  have h2: "''D'' \<noteq> []" and h3: "''D'' \<noteq> ''B''" by simp_all
  have h4: "''D'' \<in> set (columnOrder ?st)" and h5: "''B'' \<in> set (columnOrder ?st)"
    by (simp_all add: exampleView_simps)
  have h6: "(3::nat) = nat (indexOf (columnOrder ?st) ''D'')"
    and h7: "(1::nat) = nat (indexOf (columnOrder ?st) ''B'')"
    by (simp_all add: exampleView_simps)
  from reorder_takes_target_index [OF h1 h2 h3 h4 h5 h6 h7 refl]
  have leftward: "columnOrder (handleColumnDrop ''B'' ?st) = [''A'', ''D'', ''B'', ''C'']
     \<and> mset [''A'', ''D'', ''B'', ''C''] = mset [''A'', ''B'', ''C'', ''D'']
     \<and> [''A'', ''D'', ''B'', ''C''] ! 1 = ''D''
     \<and> [''A'', ''D'', ''B'', ''C''] ! Suc 1 = ''B''
     \<and> handleColumnDrop ''D'' ?st = ?st"
    by (simp add: drop_D_on_B exampleView_simps)
  let ?sf = "exampleView [''A'', ''B'', ''C'', ''D''] (Some ''A'')"
  have f1: "draggedColumn ?sf = Some ''A''" by (simp add: exampleView_simps)
  have f2: "''A'' \<noteq> []" and f3: "''A'' \<noteq> ''C''" by simp_all
  have f4: "''A'' \<in> set (columnOrder ?sf)" and f5: "''C'' \<in> set (columnOrder ?sf)"
    by (simp_all add: exampleView_simps)
  have f6: "(0::nat) = nat (indexOf (columnOrder ?sf) ''A'')"
    and f7: "(2::nat) = nat (indexOf (columnOrder ?sf) ''C'')"
    by (simp_all add: exampleView_simps)
  from reorder_takes_target_index [OF f1 f2 f3 f4 f5 f6 f7 refl]
  have rightward: "columnOrder (handleColumnDrop ''C'' ?sf) = [''B'', ''C'', ''A'', ''D'']
     \<and> [''B'', ''C'', ''A'', ''D''] ! 2 = ''A''
     \<and> [''B'', ''C'', ''A'', ''D''] ! (2 - 1) = ''C''"
    by (simp add: drop_A_on_C exampleView_simps)
  from leftward rightward show ?thesis by blast
qed

text \<open>
  The claim as written puts the dragged column immediately before the target in every
  case. Dragging \<open>A\<close> onto \<open>C\<close> in \<open>[A, B, C, D]\<close> gives \<open>[B, C, A, D]\<close>: \<open>A\<close> is after \<open>C\<close>.
\<close>

theorem reorder_before_target_counterexample:
  "columnOrder (handleColumnDrop ''C'' (exampleView [''A'', ''B'', ''C'', ''D''] (Some ''A'')))
     = [''B'', ''C'', ''A'', ''D'']
   \<and> columnOrder (handleColumnDrop ''C'' (exampleView [''A'', ''B'', ''C'', ''D''] (Some ''A'')))
     \<noteq> [''B'', ''A'', ''C'', ''D'']"
  by (simp add: drop_A_on_C)

section \<open>Selection\<close>

lemma fcard_fset_of_list_distinct: "distinct xs \<Longrightarrow> fcard (fset_of_list xs) = length xs"
  by (induction xs) (simp_all add: fcard_fempty fcard_finsert_if fset_of_list_elem)

lemma toggleAllSelection_selectedIds:
  "selectedIds (toggleAllSelection tasks st) =
     (if fcard (selectedIds st) = length (filteredTasks tasks (activeFilters st))
         \<and> filteredTasks tasks (activeFilters st) \<noteq> []
      then {||} else fset_of_list (map Task.id (filteredTasks tasks (activeFilters st))))"
  by (simp add: toggleAllSelection_def Let_def)

lemma toggleAllSelection_activeFilters:
  "activeFilters (toggleAllSelection tasks st) = activeFilters st"
  by (simp add: toggleAllSelection_def Let_def)

lemma filteredTasks_Nil: "filteredTasks tasks [] = tasks"
  by (simp add: filteredTasks_def)

lemma exampleView_selection:
  "selectedIds (exampleView order dragged) = {||}"
  "activeFilters (exampleView order dragged) = []"
  by (simp_all add: exampleView_def initialTaskListView_def)

text \<open>
  Claim C2, as the code has it. With \<open>visible\<close> the ids of the filtered tasks,
  \<open>toggleAllSelection\<close> clears the selection when the number of selected ids equals the
  number of visible tasks and that number is not zero, and sets the selection to exactly
  the visible ids otherwise. When the visible ids are distinct and only visible ids are
  selected, this is the claim's rule: cleared when the selection is the visible set, set
  to the visible set otherwise. From an empty selection with three distinct visible ids,
  one toggle selects the three and a second one clears.
\<close>

theorem toggleAll_compares_sizes:
  "visible = map Task.id (filteredTasks tasks (activeFilters st)) \<Longrightarrow>
     selectedIds (toggleAllSelection tasks st) =
       (if fcard (selectedIds st) = length visible \<and> visible \<noteq> [] then {||}
        else fset_of_list visible)
     \<and> (distinct visible \<and> selectedIds st |\<subseteq>| fset_of_list visible \<longrightarrow>
          selectedIds (toggleAllSelection tasks st) =
            (if selectedIds st = fset_of_list visible then {||} else fset_of_list visible))
     \<and> (distinct visible \<and> length visible = 3 \<and> selectedIds st = {||} \<longrightarrow>
          selectedIds (toggleAllSelection tasks st) = fset_of_list visible
          \<and> selectedIds (toggleAllSelection tasks (toggleAllSelection tasks st)) = {||})"
proof -
  assume vis: "visible = map Task.id (filteredTasks tasks (activeFilters st))"
  let ?sel = "selectedIds st" and ?V = "fset_of_list visible"
  let ?st' = "toggleAllSelection tasks st"
  have general: "selectedIds (toggleAllSelection tasks s) =
       (if fcard (selectedIds s) = length visible \<and> visible \<noteq> [] then {||} else ?V)"
    if "activeFilters s = activeFilters st" for s
    using that vis by (simp add: toggleAllSelection_selectedIds)
  have A: "selectedIds ?st' =
       (if fcard ?sel = length visible \<and> visible \<noteq> [] then {||} else ?V)"
    by (rule general) simp
  have B: "selectedIds ?st' = (if ?sel = ?V then {||} else ?V)"
    if d: "distinct visible" and sub: "?sel |\<subseteq>| ?V"
  proof (cases "?sel = ?V")
    case True
    have "fcard ?sel = length visible"
      using True fcard_fset_of_list_distinct [OF d] by simp
    moreover have "?V = {||}" if "visible = []" using that by simp
    ultimately show ?thesis using A True by auto
  next
    case False
    have "fcard ?sel \<noteq> length visible"
    proof
      assume "fcard ?sel = length visible"
      then have "fcard ?V \<le> fcard ?sel"
        using fcard_fset_of_list_distinct [OF d] by simp
      from fcard_seteq [OF sub this] False show False by simp
    qed
    then show ?thesis using A False by simp
  qed
  have C: "selectedIds ?st' = ?V \<and> selectedIds (toggleAllSelection tasks ?st') = {||}"
    if d: "distinct visible" and l: "length visible = 3" and e: "?sel = {||}"
  proof -
    have first: "selectedIds ?st' = ?V" using A l e by (simp add: fcard_fempty)
    have "fcard (selectedIds ?st') = length visible"
      using first fcard_fset_of_list_distinct [OF d] by simp
    moreover have "visible \<noteq> []" using l by auto
    moreover have "activeFilters ?st' = activeFilters st"
      by (rule toggleAllSelection_activeFilters)
    ultimately have "selectedIds (toggleAllSelection tasks ?st') = {||}"
      using general [of ?st'] by simp
    with first show ?thesis by simp
  qed
  from A B C show ?thesis by blast
qed

theorem toggleAll_compares_sizes_witness:
  "selectedIds (toggleAllSelection
      [exampleTask ''a'' ''One'' High ''2024-03-10'' ''2024-03-10'' Task,
       exampleTask ''b'' ''Two'' Low ''2024-03-10'' ''2024-03-12'' Task,
       exampleTask ''c'' ''Three'' Low ''2024-03-11'' ''2024-03-12'' Task]
      (exampleView defaultTaskColumnOrder None)) = {|''a'', ''b'', ''c''|}
   \<and> selectedIds (toggleAllSelection
      [exampleTask ''a'' ''One'' High ''2024-03-10'' ''2024-03-10'' Task,
       exampleTask ''b'' ''Two'' Low ''2024-03-10'' ''2024-03-12'' Task,
       exampleTask ''c'' ''Three'' Low ''2024-03-11'' ''2024-03-12'' Task]
      (toggleAllSelection
        [exampleTask ''a'' ''One'' High ''2024-03-10'' ''2024-03-10'' Task,
         exampleTask ''b'' ''Two'' Low ''2024-03-10'' ''2024-03-12'' Task,
         exampleTask ''c'' ''Three'' Low ''2024-03-11'' ''2024-03-12'' Task]
        (exampleView defaultTaskColumnOrder None))) = {||}"
proof -
  let ?tasks = "[exampleTask ''a'' ''One'' High ''2024-03-10'' ''2024-03-10'' Task,
       exampleTask ''b'' ''Two'' Low ''2024-03-10'' ''2024-03-12'' Task,
       exampleTask ''c'' ''Three'' Low ''2024-03-11'' ''2024-03-12'' Task]"
  let ?st = "exampleView defaultTaskColumnOrder None"
  have vis: "[''a'', ''b'', ''c''] = map Task.id (filteredTasks ?tasks (activeFilters ?st))"
    by (simp add: exampleView_selection filteredTasks_Nil exampleTask_def)
  have pre: "distinct [''a'', ''b'', ''c''] \<and> length [''a'', ''b'', ''c''] = 3
      \<and> selectedIds ?st = {||}"
    by (simp add: exampleView_selection)
  from toggleAll_compares_sizes [OF vis] pre
  show ?thesis by (simp add: fcard_fempty)
qed

text \<open>
  The claim as written compares the selection with the visible set. With one stale id
  \<open>x\<close> selected and one visible task \<open>a\<close>, the selection differs from the visible set, so
  the claim has the selection become \<open>{a}\<close>; the sizes agree, and the code clears it.
\<close>

theorem toggleAll_set_equality_counterexample:
  "selectedIds ((exampleView defaultTaskColumnOrder None)\<lparr>selectedIds := {|''x''|}\<rparr>)
     \<noteq> fset_of_list (map Task.id (filteredTasks
          [exampleTask ''a'' ''One'' High ''2024-03-10'' ''2024-03-10'' Task]
          (activeFilters ((exampleView defaultTaskColumnOrder None)\<lparr>selectedIds := {|''x''|}\<rparr>))))
   \<and> selectedIds (toggleAllSelection
        [exampleTask ''a'' ''One'' High ''2024-03-10'' ''2024-03-10'' Task]
        ((exampleView defaultTaskColumnOrder None)\<lparr>selectedIds := {|''x''|}\<rparr>)) = {||}
   \<and> selectedIds (toggleAllSelection
        [exampleTask ''a'' ''One'' High ''2024-03-10'' ''2024-03-10'' Task]
        ((exampleView defaultTaskColumnOrder None)\<lparr>selectedIds := {|''x''|}\<rparr>)) \<noteq> {|''a''|}"
  by (auto simp: toggleAllSelection_selectedIds exampleView_selection filteredTasks_Nil
      exampleTask_def fcard_finsert_if fcard_fempty)

text \<open>
  Claim C10. When no task passes the filters, \<open>toggleAllSelection\<close> takes the branch that
  sets the selection to the ids of the filtered tasks, and the selection is empty
  afterwards, whatever was selected before.
\<close>

theorem toggleAll_empty_view_clears:
  "filteredTasks tasks (activeFilters st) = [] \<Longrightarrow>
     toggleAllSelection tasks st =
       st\<lparr>selectedIds := fset_of_list (map Task.id (filteredTasks tasks (activeFilters st)))\<rparr>
     \<and> selectedIds (toggleAllSelection tasks st) = {||}"
  by (simp add: toggleAllSelection_def)

theorem toggleAll_empty_view_clears_witness:
  "selectedIds (toggleAllSelection []
      ((exampleView defaultTaskColumnOrder None)\<lparr>selectedIds := {|''stale1'', ''stale2''|}\<rparr>))
     = {||}"
proof -
  let ?st = "(exampleView defaultTaskColumnOrder None)\<lparr>selectedIds := {|''stale1'', ''stale2''|}\<rparr>"
  have h: "filteredTasks [] (activeFilters ?st) = []" by (simp add: filteredTasks_def)
  from toggleAll_empty_view_clears [OF h] show ?thesis by blast
qed

text \<open>
  Claim C3, as the code has it. A drop while no column is being dragged (the drag state
  is \<^verbatim>\<open>null\<close> or the empty key), or on the dragged column itself, leaves the whole state as
  it is. \<open>toggleSelection\<close> flips the membership of the id it is given and of no other
  id, without looking at the records: an unselected id is added whether or not a record
  has it, and toggling twice gives back the selection.
\<close>

theorem stale_drag_is_noop_and_toggle_flips:
  "(draggedColumn st = None \<or> draggedColumn st = Some [] \<or> draggedColumn st = Some t
      \<longrightarrow> handleColumnDrop t st = st)
   \<and> (k |\<in>| selectedIds (toggleSelection i st))
       = (if k = i then i |\<notin>| selectedIds st else k |\<in>| selectedIds st)
   \<and> toggleSelection i (toggleSelection i st) = st"
proof -
  have drop: "handleColumnDrop t st = st"
    if "draggedColumn st = None \<or> draggedColumn st = Some [] \<or> draggedColumn st = Some t"
    using that by (auto simp: handleColumnDrop_def)
  have flip: "(k |\<in>| selectedIds (toggleSelection i st))
       = (if k = i then i |\<notin>| selectedIds st else k |\<in>| selectedIds st)"
    by (auto simp: toggleSelection_def Let_def)
  have "selectedIds (toggleSelection i (toggleSelection i st)) = selectedIds st"
    by (auto simp: toggleSelection_def Let_def)
  then have twice: "toggleSelection i (toggleSelection i st) = st"
    by (simp add: toggleSelection_def Let_def)
  from drop flip twice show ?thesis by blast
qed

theorem stale_drag_is_noop_and_toggle_flips_witness:
  "handleColumnDrop ''B'' (exampleView [''A'', ''B'', ''C''] None)
     = exampleView [''A'', ''B'', ''C''] None
   \<and> ''t1'' |\<in>| selectedIds (toggleSelection ''t1'' (exampleView [''A'', ''B'', ''C''] None))
   \<and> toggleSelection ''t1'' (toggleSelection ''t1'' (exampleView [''A'', ''B'', ''C''] None))
     = exampleView [''A'', ''B'', ''C''] None"
proof -
  let ?st = "exampleView [''A'', ''B'', ''C''] None"
  have h: "draggedColumn ?st = None \<or> draggedColumn ?st = Some [] \<or> draggedColumn ?st = Some ''B''"
    by (simp add: exampleView_simps)
  from stale_drag_is_noop_and_toggle_flips [of ?st "''B''" "''t1''" "''t1''"] h
  show ?thesis by (simp add: exampleView_selection)
qed

text \<open>
  The claim as written has both operations leave the state alone. A dragged key \<open>X\<close> that
  is not in \<open>[A, B, C]\<close>, dropped on \<open>B\<close>, gives \<open>[A, X, B]\<close> (\<^verbatim>\<open>indexOf\<close> is \<open>-1\<close>, so the
  first \<^verbatim>\<open>splice\<close> removes the last column). Toggling the id \<open>ghost\<close>, which no record of
  an empty task list has, adds it to the empty selection.
\<close>

theorem unknown_reference_counterexample:
  "''X'' \<notin> set [''A'', ''B'', ''C'']
   \<and> columnOrder (handleColumnDrop ''B'' (exampleView [''A'', ''B'', ''C''] (Some ''X'')))
       = [''A'', ''X'', ''B'']
   \<and> ''ghost'' \<notin> set (map Task.id [])
   \<and> selectedIds (exampleView [''A'', ''B'', ''C''] None) = {||}
   \<and> selectedIds (toggleSelection ''ghost'' (exampleView [''A'', ''B'', ''C''] None))
       = {|''ghost''|}"
proof -
  have "columnOrder (handleColumnDrop ''B'' (exampleView [''A'', ''B'', ''C''] (Some ''X'')))
     = splice (splice [''A'', ''B'', ''C''] (indexOf [''A'', ''B'', ''C''] ''X'') 1 [])
              (indexOf [''A'', ''B'', ''C''] ''B'') 0 [''X'']"
    by (simp add: handleColumnDrop_order exampleView_simps)
  also have "\<dots> = [''A'', ''X'', ''B'']"
    by code_simp
  finally have a: "columnOrder (handleColumnDrop ''B'' (exampleView [''A'', ''B'', ''C''] (Some ''X'')))
       = [''A'', ''X'', ''B'']" .
  have b: "selectedIds (toggleSelection ''ghost'' (exampleView [''A'', ''B'', ''C''] None))
       = {|''ghost''|}"
    by (simp add: toggleSelection_def exampleView_selection)
  from a b show ?thesis by (simp add: exampleView_selection)
qed

section \<open>Filtering\<close>

lemma String_includes_iff: "String_includes s sub \<longleftrightarrow> sublist sub s"
proof (induction s)
  case Nil
  then show ?case by simp
next
  case (Cons c cs)
  then show ?case by (simp add: sublist_Cons_right)
qed

lemma taskPasses_spec:
  "taskPasses task e =
     spec_entry_holds (TaskStatus_str (Task.status task)) (Priority_str (Task.priority task))
       (Task_field task) e"
  by (cases e)
     (simp add: taskPasses_def spec_entry_holds_def String_or_empty_def String_includes_iff Let_def)

lemma issuePasses_spec:
  "issuePasses issue e =
     spec_entry_holds (IssueStatus_str (Issue.status issue)) (Priority_str (Issue.priority issue))
       (Issue_field issue) e"
  by (cases e)
     (simp add: issuePasses_def spec_entry_holds_def String_or_empty_def String_includes_iff Let_def)

text \<open>
  Claim C5. The filtered tasks, and the filtered issues, are the records, in their
  original order, for which every entry of the filter map holds in the sense of the
  specification: the entry's value is empty, or the key is \<open>status\<close> or \<open>priority\<close> and the
  value is exactly that field's string, or the lowered value occurs in the lowered string
  of the field named by the key, a field the record does not have counting as empty.
\<close>

theorem filter_keeps_records_passing_every_entry:
  "filteredTasks tasks filters =
     filter (\<lambda>task. \<forall>e \<in> set filters.
               spec_entry_holds (TaskStatus_str (Task.status task))
                 (Priority_str (Task.priority task)) (Task_field task) e) tasks
   \<and> filteredIssues issues filters =
     filter (\<lambda>issue. \<forall>e \<in> set filters.
               spec_entry_holds (IssueStatus_str (Issue.status issue))
                 (Priority_str (Issue.priority issue)) (Issue_field issue) e) issues"
  by (simp add: filteredTasks_def filteredIssues_def list_all_iff taskPasses_spec issuePasses_spec)

lemma filteredTasks_example:
  "filteredTasks
     [exampleTask ''t1'' ''Design Mockups'' High ''2024-03-10'' ''2024-03-10'' Task,
      exampleTask ''t2'' ''Design Mockups'' Low ''2024-03-10'' ''2024-03-12'' Task,
      exampleTask ''t3'' ''Write tests'' High ''2024-03-10'' ''2024-03-12'' Task]
     [(''title'', ''mock''), (''priority'', ''High''), (''assignee'', []), (''status'', ''Doing'')]
   = [exampleTask ''t1'' ''Design Mockups'' High ''2024-03-10'' ''2024-03-10'' Task]"
  by code_simp

theorem filter_keeps_records_passing_every_entry_witness:
  "filter (\<lambda>task. \<forall>e \<in> set [(''title'', ''mock''), (''priority'', ''High''),
                                (''assignee'', []), (''status'', ''Doing'')].
               spec_entry_holds (TaskStatus_str (Task.status task))
                 (Priority_str (Task.priority task)) (Task_field task) e)
     [exampleTask ''t1'' ''Design Mockups'' High ''2024-03-10'' ''2024-03-10'' Task,
      exampleTask ''t2'' ''Design Mockups'' Low ''2024-03-10'' ''2024-03-12'' Task,
      exampleTask ''t3'' ''Write tests'' High ''2024-03-10'' ''2024-03-12'' Task]
   = [exampleTask ''t1'' ''Design Mockups'' High ''2024-03-10'' ''2024-03-10'' Task]"
  using filter_keeps_records_passing_every_entry
    [of "[exampleTask ''t1'' ''Design Mockups'' High ''2024-03-10'' ''2024-03-10'' Task,
          exampleTask ''t2'' ''Design Mockups'' Low ''2024-03-10'' ''2024-03-12'' Task,
          exampleTask ''t3'' ''Write tests'' High ''2024-03-10'' ''2024-03-12'' Task]"
        "[(''title'', ''mock''), (''priority'', ''High''), (''assignee'', []), (''status'', ''Doing'')]"
        "[]"]
  by (simp only: filteredTasks_example)

section \<open>Resizing\<close>

text \<open>
  A pointer move during a resize drag writes one entry of the widths map, the one of the
  dragged column, and nothing else of the state.
\<close>

lemma handleMouseMove_frame:
  "resizing st = Some r \<Longrightarrow>
     (\<forall>k. k \<noteq> key r \<longrightarrow> columnWidths (handleMouseMove clientX st) k = columnWidths st k)
     \<and> handleMouseMove clientX st
         = st\<lparr>columnWidths := columnWidths (handleMouseMove clientX st)\<rparr>"
  by (simp add: handleMouseMove_def Let_def)

text \<open>
  When the start width the drag captured is a finite number \<open>w\<close>, the entry written is
  \<open>max 80 (w + (clientX - startX))\<close>, which is at least 80.
\<close>

lemma handleMouseMove_numeric_start:
  "resizing st = Some r \<Longrightarrow> startWidth r = Some (Number w) \<Longrightarrow>
     columnWidths (handleMouseMove clientX st) (key r)
       = Some (Number (max 80 (w + (clientX - startX r))))
     \<and> 80 \<le> max 80 (w + (clientX - startX r))
     \<and> (w + (clientX - startX r) = 10 \<longrightarrow>
          columnWidths (handleMouseMove clientX st) (key r) = Some (Number 80))"
  by (simp add: handleMouseMove_def Let_def)

lemma resize_of_column_with_width:
  "columnWidths st k = Some (Number w) \<Longrightarrow>
     columnWidths (handleMouseMove c1 (startResize c0 k st)) k
       = Some (Number (max 80 (w + (c1 - c0))))"
  by (simp add: handleMouseMove_def startResize_def Let_def)

text \<open>
  When the widths map has no entry for the column, the start width is \<^verbatim>\<open>undefined\<close>, the
  sum is NaN and NaN is written.
\<close>

lemma resize_of_column_without_width:
  "columnWidths st k = None \<Longrightarrow>
     columnWidths (handleMouseMove c1 (startResize c0 k st)) k = Some NaN"
  by (simp add: handleMouseMove_def startResize_def Let_def)

lemma legacy_closedDate_without_width:
  "columnWidths (initialTaskListView legacyStorage) ''closedDate'' = None"
  by (simp add: initialTaskListView_def loadColumnWidths_def legacyStorage_def truthy_def
      widths_of_json_def)

lemma legacy_closedDate_in_order:
  "columnOrder (initialTaskListView legacyStorage)
     = [''title'', ''description'', ''status'', ''priority'', ''assignee'', ''startDate'',
        ''dueDate'', ''closedDate'']"
  by (simp add: initialTaskListView_def loadColumnOrder_def legacyStorage_def truthy_def)

text \<open>
  Claim C9 has every pointer move of a resize drag store
  \<open>max 80 (startWidth + (clientX - startX))\<close>, so that no stored width is below 80. The
  code does not at this input: the task list is opened on a layout saved without the
  \<open>closedDate\<close> column. The order loader appends \<open>closedDate\<close>, so the column is shown with
  its resize handle; the widths loader adds nothing, so the column has no width. The
  pointer goes down on that handle at 250 and moves to 260: the width stored for
  \<open>closedDate\<close> is NaN, not the 80 or more the claim states.
\<close>

theorem resize_of_migrated_column_stores_NaN:
  "columnOrder (initialTaskListView legacyStorage)
     = [''title'', ''description'', ''status'', ''priority'', ''assignee'', ''startDate'',
        ''dueDate'', ''closedDate'']
   \<and> columnWidths (initialTaskListView legacyStorage) ''closedDate'' = None
   \<and> columnWidths
        (handleMouseMove 260 (startResize 250 ''closedDate'' (initialTaskListView legacyStorage)))
        ''closedDate'' = Some NaN
   \<and> (\<nexists>w. columnWidths
        (handleMouseMove 260 (startResize 250 ''closedDate'' (initialTaskListView legacyStorage)))
        ''closedDate'' = Some (Number w) \<and> 80 \<le> w)"
  using legacy_closedDate_in_order legacy_closedDate_without_width
    resize_of_column_without_width [OF legacy_closedDate_without_width, of 260 250]
  by simp

section \<open>Persisted layout\<close>

text \<open>
  What a save followed by a load does to the layout. A width that is a finite number or
  \<^verbatim>\<open>null\<close> comes back as it was, a NaN width comes back as \<^verbatim>\<open>null\<close>.
\<close>

lemma value_of_json_stringify:
  "value_of_json (stringify_value v) = (if v = NaN then Null else v)"
  by (cases v) simp_all

lemma loadColumnWidths_saveColumnWidths:
  "loadColumnWidths (saveColumnWidths widths store) k
     = (if widths k = Some NaN then Some Null else widths k)"
  by (cases "widths k")
     (simp_all add: loadColumnWidths_def saveColumnWidths_def JSON_stringify_widths_def
       truthy_def widths_of_json_def value_of_json_stringify)

lemma loadIssueColumnWidths_saveIssueColumnWidths:
  "loadIssueColumnWidths (saveIssueColumnWidths widths store) k
     = (if widths k = Some NaN then Some Null else widths k)"
  by (cases "widths k")
     (simp_all add: loadIssueColumnWidths_def saveIssueColumnWidths_def
       JSON_stringify_widths_def truthy_def widths_of_json_def value_of_json_stringify)

text \<open>So a widths map without NaN is loaded as it was saved, in both grids.\<close>

lemma widths_round_trip:
  "\<forall>k. widths k \<noteq> Some NaN \<Longrightarrow>
     loadColumnWidths (saveColumnWidths widths store) = widths
     \<and> loadIssueColumnWidths (saveIssueColumnWidths widths store) = widths"
  by (auto simp: loadColumnWidths_saveColumnWidths loadIssueColumnWidths_saveIssueColumnWidths)

text \<open>
  The order of the issue log is loaded as it was saved; the order of the task list is
  when it contains \<open>closedDate\<close>, and gets \<open>closedDate\<close> appended otherwise.
\<close>

lemma order_round_trip:
  "loadIssueColumnOrder (saveIssueColumnOrder order store) = order
   \<and> loadColumnOrder (saveColumnOrder order store)
       = (if ''closedDate'' \<in> set order then order else order @ [''closedDate''])"
  by (simp add: loadIssueColumnOrder_def saveIssueColumnOrder_def loadColumnOrder_def
      saveColumnOrder_def JSON_stringify_order_def truthy_def)

text \<open>
  The order the task list holds always contains \<open>closedDate\<close>: it does when loaded, and a
  drop of a column of the order on a column of the order keeps the set of keys.
\<close>

lemma loadColumnOrder_has_closedDate: "''closedDate'' \<in> set (loadColumnOrder store)"
  by (auto simp: loadColumnOrder_def defaultTaskColumnOrder_def
      split: option.splits item.splits)

lemma handleColumnDrop_keeps_keys:
  assumes "draggedColumn st = Some d" "d \<in> set (columnOrder st)" "t \<in> set (columnOrder st)"
  shows "set (columnOrder (handleColumnDrop t st)) = set (columnOrder st)"
proof (cases "d = [] \<or> d = t")
  case True
  with assms(1) show ?thesis by (auto simp: handleColumnDrop_def)
next
  case False
  then have ne: "d \<noteq> []" and dt: "d \<noteq> t" by simp_all
  from indexOf_present [OF assms(2)]
  have j: "nat (indexOf (columnOrder st) d) < length (columnOrder st)" by auto
  have "mset (columnOrder (handleColumnDrop t st)) = mset (columnOrder st)"
    unfolding handleColumnDrop_moved [OF assms(1) ne dt assms(2,3)]
    by (rule moved_mset [OF j])
  then show ?thesis by (rule mset_eq_setD)
qed

lemma legacyResized_closedDate: "columnWidths legacyResized ''closedDate'' = Some NaN"
  unfolding legacyResized_def
  by (rule resize_of_column_without_width [OF legacy_closedDate_without_width])

text \<open>
  Claim C4 has the loaded layout identical to the saved one. The code does not at this
  input: the task list opened on a layout saved without the \<open>closedDate\<close> column, after a
  resize drag of that column (the input of C9). The widths map holds NaN for
  \<open>closedDate\<close>; it is saved as \<^verbatim>\<open>null\<close> and loaded as \<^verbatim>\<open>null\<close>, so the loaded widths map is
  not the saved one.
\<close>

theorem saved_NaN_width_loads_as_null:
  "columnWidths legacyResized ''closedDate'' = Some NaN
   \<and> loadColumnWidths (saveColumnWidths (columnWidths legacyResized) legacyStorage) ''closedDate''
       = Some Null
   \<and> loadColumnWidths (saveColumnWidths (columnWidths legacyResized) legacyStorage)
       \<noteq> columnWidths legacyResized"
proof -
  let ?loaded = "loadColumnWidths (saveColumnWidths (columnWidths legacyResized) legacyStorage)"
  have l: "?loaded ''closedDate'' = Some Null"
    by (simp add: loadColumnWidths_saveColumnWidths legacyResized_closedDate)
  have "?loaded ''closedDate'' \<noteq> columnWidths legacyResized ''closedDate''"
    by (simp add: l legacyResized_closedDate)
  then have "?loaded \<noteq> columnWidths legacyResized" by metis
  with l legacyResized_closedDate show ?thesis by simp
qed

section \<open>Timeline granularity\<close>

text \<open>
  Claim C8. The granularity is Daily exactly when \<open>pixelsPerDay\<close> is at least 18 and
  Monthly exactly when it is below 18, at every zoom factor; 17 gives Monthly, 18 Daily.
\<close>

theorem granularity_threshold:
  "(viewMode pixelsPerDay = Daily) = (18 \<le> pixelsPerDay)
   \<and> (viewMode pixelsPerDay = Monthly) = (pixelsPerDay < 18)
   \<and> viewMode 17 = Monthly \<and> viewMode 18 = Daily"
  by (auto simp: viewMode_def)

lemma zoom_stays_in_range:
  "2 \<le> p \<Longrightarrow> p \<le> 100 \<Longrightarrow>
     2 \<le> zoomOut p \<and> zoomOut p \<le> 100 \<and> 2 \<le> zoomIn p \<and> zoomIn p \<le> 100
     \<and> 2 \<le> presetDaily \<and> presetDaily \<le> 100 \<and> 2 \<le> presetMonthly \<and> presetMonthly \<le> 100"
  by (auto simp: zoomOut_def zoomIn_def presetDaily_def presetMonthly_def)

section \<open>Timeline geometry\<close>

subsection \<open>Day numbers\<close>

text \<open>
  \<open>daysFromCivil\<close> counts calendar days: it is 0 on 1970-01-01 and grows by one from each
  date to the next, within a month, from the last day of a month to the first of the
  next, and from 31 December to 1 January.
\<close>

lemma daysFromCivil_epoch: "daysFromCivil 1970 1 1 = 0"
  by (simp add: daysFromCivil_def)

lemma daysFromCivil_next_day: "daysFromCivil yr mo (dy + 1) = daysFromCivil yr mo dy + 1"
  by (simp add: daysFromCivil_def Let_def)

lemma daysFromCivil_next_year: "daysFromCivil (yr + 1) 1 1 = daysFromCivil yr 12 31 + 1"
  by (simp add: daysFromCivil_def Let_def)

lemma next_month_other:
  "mo = 1 \<or> (3 \<le> mo \<and> mo < 12) \<Longrightarrow>
     daysFromCivil yr (mo + 1) 1 = daysFromCivil yr mo (daysInMonth yr mo) + 1"
proof -
  assume "mo = 1 \<or> (3 \<le> mo \<and> mo < 12)"
  then consider "mo = 1" | "mo = 3" | "mo = 4" | "mo = 5" | "mo = 6" | "mo = 7"
    | "mo = 8" | "mo = 9" | "mo = 10" | "mo = 11" by atomize_elim arith
  then show ?thesis
    by cases (simp_all add: daysFromCivil_def daysInMonth_def Let_def)
qed

lemma div_pred:
  fixes r n :: int
  assumes n: "0 < n"
  shows "(r - 1) div n = (if r mod n = 0 then r div n - 1 else r div n)"
proof -
  define q where "q = r div n"
  define m where "m = r mod n"
  have r: "r = n * q + m" by (simp add: q_def m_def)
  have m: "0 \<le> m" "m < n" using n by (simp_all add: m_def)
  show ?thesis
  proof (cases "m = 0")
    case True
    have e: "r - 1 = n * (q - 1) + (n - 1)" using r True by (simp add: algebra_simps)
    have "(r - 1) div n = (n * (q - 1) + (n - 1)) div n" by (simp only: e)
    also have "\<dots> = q - 1 + (n - 1) div n" using n by (intro div_mult_self4) simp
    also have "\<dots> = q - 1" using n by (simp add: div_pos_pos_trivial)
    finally show ?thesis using True by (simp add: q_def m_def)
  next
    case False
    have e: "r - 1 = n * q + (m - 1)" using r by simp
    have "(r - 1) div n = (n * q + (m - 1)) div n" by (simp only: e)
    also have "\<dots> = q + (m - 1) div n" using n by (intro div_mult_self4) simp
    also have "\<dots> = q" using m False by (simp add: div_pos_pos_trivial)
    finally show ?thesis using False by (simp add: q_def m_def)
  qed
qed

lemma mod_100_mod_4: "(r::int) mod 100 = 0 \<Longrightarrow> r mod 4 = 0"
proof -
  assume "r mod 100 = 0"
  then have "100 dvd r" by (simp add: dvd_eq_mod_eq_0)
  moreover have "(4::int) dvd 100" by simp
  ultimately have "4 dvd r" by (rule dvd_trans [rotated])
  then show ?thesis by (simp add: dvd_eq_mod_eq_0)
qed

lemma next_month_feb:
  "daysFromCivil yr 3 1 = daysFromCivil yr 2 (daysInMonth yr 2) + 1"
proof -
  define q where "q = yr div 400"
  define r where "r = yr mod 400"
  have yr: "yr = 400 * q + r" and r: "0 \<le> r" "r < 400"
    by (simp_all add: q_def r_def)
  have d1: "yr div 400 = q" by (simp add: q_def)
  have m400: "yr mod 400 = r" by (simp add: r_def)
  have "yr = 4 * (100 * q) + r" using yr by simp
  then have m4: "yr mod 4 = r mod 4" by (simp only: mod_mult_self4)
  have "yr = 100 * (4 * q) + r" using yr by simp
  then have m100: "yr mod 100 = r mod 100" by (simp only: mod_mult_self4)
  have d2: "(yr - 1) div 400 = (if r = 0 then q - 1 else q)"
    using div_pred [of 400 yr] by (simp add: d1 m400)
  show ?thesis
  proof (cases "r = 0")
    case True
    have y0: "yr - q * 400 = 0" "yr - 1 - (q - 1) * 400 = 399" using yr True by simp_all
    show ?thesis
      using True d1 d2 y0
      by (simp add: daysFromCivil_def daysInMonth_def isLeapYear_def Let_def m4 m100 m400)
  next
    case False
    have p4: "(r - 1) div 4 = (if r mod 4 = 0 then r div 4 - 1 else r div 4)"
      by (rule div_pred) simp
    have p100: "(r - 1) div 100 = (if r mod 100 = 0 then r div 100 - 1 else r div 100)"
      by (rule div_pred) simp
    have step: "r * 365 + r div 4 - r div 100
        = (r - 1) * 365 + (r - 1) div 4 - (r - 1) div 100 + 337
          + (if r mod 4 = 0 \<and> r mod 100 \<noteq> 0 then 29 else 28)"
      using mod_100_mod_4 [of r] by (auto simp: p4 p100 algebra_simps)
    have y0: "yr - q * 400 = r" "yr - 1 - q * 400 = r - 1" using yr by simp_all
    have dim: "daysInMonth yr 2 = (if r mod 4 = 0 \<and> r mod 100 \<noteq> 0 then 29 else 28)"
      using False by (simp add: daysInMonth_def isLeapYear_def m4 m100 m400)
    have L0: "daysFromCivil yr 3 1
        = yr div 400 * 146097
          + ((yr - yr div 400 * 400) * 365 + (yr - yr div 400 * 400) div 4
             - (yr - yr div 400 * 400) div 100) - 719468"
      by (simp add: daysFromCivil_def Let_def)
    have L: "daysFromCivil yr 3 1 = q * 146097 + (r * 365 + r div 4 - r div 100) - 719468"
      using L0 by (simp only: d1 y0(1))
    have R0: "daysFromCivil yr 2 dd
        = (yr - 1) div 400 * 146097
          + ((yr - 1 - (yr - 1) div 400 * 400) * 365 + (yr - 1 - (yr - 1) div 400 * 400) div 4
             - (yr - 1 - (yr - 1) div 400 * 400) div 100 + 337 + dd - 1) - 719468"
      for dd
      by (simp add: daysFromCivil_def Let_def)
    have d2': "(yr - 1) div 400 = q" using d2 False by simp
    have R: "daysFromCivil yr 2 dd
        = q * 146097 + ((r - 1) * 365 + (r - 1) div 4 - (r - 1) div 100 + 337 + dd - 1) - 719468"
      for dd
      using R0 [of dd] by (simp only: d2' y0(2))
    show ?thesis unfolding L R dim using step by linarith
  qed
qed

lemma daysFromCivil_next_month:
  "1 \<le> mo \<Longrightarrow> mo < 12 \<Longrightarrow>
     daysFromCivil yr (mo + 1) 1 = daysFromCivil yr mo (daysInMonth yr mo) + 1"
proof -
  assume "1 \<le> mo" "mo < 12"
  then consider "mo = 2" | "mo = 1 \<or> (3 \<le> mo \<and> mo < 12)" by atomize_elim arith
  then show ?thesis
  proof cases
    case 1
    with next_month_feb [of yr] show ?thesis by simp
  next
    case 2
    then show ?thesis by (rule next_month_other)
  qed
qed

subsection \<open>Looking a task up in the positions map\<close>

lemma positions_fold_other:
  "k \<notin> Task.id ` set ts \<Longrightarrow>
     fold (\<lambda>(index, task) positions. positions(Task.id task \<mapsto> f task index))
          (enumerate n ts) m k = m k"
  by (induction ts arbitrary: n m) auto

lemma positions_fold_nth:
  "distinct (map Task.id ts) \<Longrightarrow> r < length ts \<Longrightarrow>
     fold (\<lambda>(index, task) positions. positions(Task.id task \<mapsto> f task index))
          (enumerate n ts) m (Task.id (ts ! r)) = Some (f (ts ! r) (n + r))"
proof (induction ts arbitrary: n m r)
  case Nil
  then show ?case by simp
next
  case (Cons t ts)
  show ?case
  proof (cases r)
    case 0
    from Cons.prems(1) have "Task.id t \<notin> Task.id ` set ts" by simp
    from positions_fold_other [OF this, of f "Suc n" "m(Task.id t \<mapsto> f t n)"] 0
    show ?thesis by (simp del: fun_upd_apply) simp
  next
    case (Suc r')
    with Cons.prems have "distinct (map Task.id ts)" "r' < length ts" by simp_all
    from Cons.IH [OF this, of "Suc n" "m(Task.id t \<mapsto> f t n)"] Suc
    show ?thesis by (simp del: fun_upd_apply)
  qed
qed

lemma taskPositions_nth:
  "distinct (map Task.id sortedTasks) \<Longrightarrow> r < length sortedTasks \<Longrightarrow>
     taskPositions sortedTasks rangeStart ppd (Task.id (sortedTasks ! r))
       = Some (taskPosition rangeStart ppd (sortedTasks ! r) r)"
  unfolding taskPositions_def
  using positions_fold_nth [of sortedTasks r "taskPosition rangeStart ppd" 0 Map.empty]
  by simp

lemma taskPosition_valid:
  "dayNumber (Task.startDate task) = Some s \<Longrightarrow> dayNumber (Task.dueDate task) = Some d \<Longrightarrow>
     taskPosition (Some r0) ppd task r =
       \<lparr>x = Some ((real_of_int s - real_of_int r0 / 86400000) * ppd),
        width = Some (real_of_int (d - s + 1) * ppd),
        y = real r * 48 + 24\<rparr>"
  by (simp add: taskPosition_def Date_getTime_def ROW_HEIGHT_def Let_def field_simps)

lemma day_2024_03_10: "dayNumber ''2024-03-10'' = Some 19792"
  by code_simp

lemma day_2024_03_12: "dayNumber ''2024-03-12'' = Some 19794"
  by code_simp

subsection \<open>Bars\<close>

text \<open>
  Claim C6. For a task of a list with distinct ids whose start and due dates are
  calendar dates with day numbers \<open>s\<close> and \<open>d\<close>, the stored width is
  \<open>(d - s + 1) * pixelsPerDay\<close> and the stored x-offset is the start day minus the range
  start, in days, times \<open>pixelsPerDay\<close> (\<open>r0\<close> is the range start in milliseconds). A task
  that starts and ends on the same date has width 40 at 40 pixels per day, and a task
  that does not end before it starts has a width above zero at every positive zoom
  factor, so at every zoom factor of the range 2 to 100.
\<close>

theorem bar_width_and_offset:
  "distinct (map Task.id sortedTasks) \<Longrightarrow> r < length sortedTasks \<Longrightarrow>
   task = sortedTasks ! r \<Longrightarrow>
   dayNumber (Task.startDate task) = Some s \<Longrightarrow> dayNumber (Task.dueDate task) = Some d \<Longrightarrow>
     \<exists>pos. taskPositions sortedTasks (Some r0) ppd (Task.id task) = Some pos
       \<and> width pos = Some (real_of_int (d - s + 1) * ppd)
       \<and> x pos = Some ((real_of_int s - real_of_int r0 / 86400000) * ppd)
       \<and> (Task.startDate task = Task.dueDate task \<and> ppd = 40 \<longrightarrow> width pos = Some 40)
       \<and> (s \<le> d \<and> 0 < ppd \<longrightarrow> (\<exists>w. width pos = Some w \<and> 0 < w))"
proof -
  assume dist: "distinct (map Task.id sortedTasks)" and r: "r < length sortedTasks"
    and task: "task = sortedTasks ! r"
    and s: "dayNumber (Task.startDate task) = Some s"
    and d: "dayNumber (Task.dueDate task) = Some d"
  let ?pos = "taskPosition (Some r0) ppd task r"
  have lookup: "taskPositions sortedTasks (Some r0) ppd (Task.id task) = Some ?pos"
    using taskPositions_nth [OF dist r] task by simp
  have pos: "?pos = \<lparr>x = Some ((real_of_int s - real_of_int r0 / 86400000) * ppd),
        width = Some (real_of_int (d - s + 1) * ppd), y = real r * 48 + 24\<rparr>"
    by (rule taskPosition_valid [OF s d])
  have w: "width ?pos = Some (real_of_int (d - s + 1) * ppd)"
    and xo: "x ?pos = Some ((real_of_int s - real_of_int r0 / 86400000) * ppd)"
    by (simp_all add: pos)
  have single: "width ?pos = Some 40" if "Task.startDate task = Task.dueDate task" "ppd = 40"
  proof -
    from that(1) s d have "s = d" by simp
    with w that(2) show ?thesis by simp
  qed
  have nonzero: "\<exists>w. width ?pos = Some w \<and> 0 < w" if "s \<le> d" "0 < ppd"
  proof -
    from that(1) have "0 < real_of_int (d - s + 1)" by simp
    from this that(2) have "0 < real_of_int (d - s + 1) * ppd" by (rule mult_pos_pos)
    with w show ?thesis by simp
  qed
  from lookup w xo single nonzero show ?thesis by blast
qed

theorem bar_width_and_offset_witness:
  "\<exists>pos. taskPositions
            [exampleTask ''t1'' ''Kickoff'' High ''2024-03-10'' ''2024-03-10'' Task,
             exampleTask ''t2'' ''Build'' Low ''2024-03-10'' ''2024-03-12'' Task]
            (Some (19787 * 86400000)) 40 ''t1'' = Some pos
         \<and> width pos = Some 40 \<and> x pos = Some 200"
proof -
  let ?t1 = "exampleTask ''t1'' ''Kickoff'' High ''2024-03-10'' ''2024-03-10'' Task"
  let ?t2 = "exampleTask ''t2'' ''Build'' Low ''2024-03-10'' ''2024-03-12'' Task"
  have h1: "distinct (map Task.id [?t1, ?t2])" by (simp add: exampleTask_def)
  have h2: "0 < length [?t1, ?t2]" by simp
  have h3: "?t1 = [?t1, ?t2] ! 0" by simp
  have h4: "dayNumber (Task.startDate ?t1) = Some 19792"
    and h5: "dayNumber (Task.dueDate ?t1) = Some 19792"
    by (simp_all add: exampleTask_def day_2024_03_10)
  from bar_width_and_offset [OF h1 h2 h3 h4 h5, of "19787 * 86400000" 40]
  show ?thesis by (auto simp: exampleTask_def)
qed

subsection \<open>Milestones\<close>

lemma renderBar_milestone_ignores_width:
  "Task.type task = Milestone \<Longrightarrow>
     renderBar task (m(Task.id task \<mapsto> p\<lparr>width := w\<rparr>)) = renderBar task (m(Task.id task \<mapsto> p))"
  by (simp add: renderBar_def)

text \<open>
  Claim C7. With \<open>xOffset\<close> the x-offset of the task as in C6: a Milestone is rendered as
  the diamond whose left edge is half the marker size before \<open>xOffset\<close>, so that it is
  centred on \<open>xOffset\<close>; its width is the constant marker size at every \<open>pixelsPerDay\<close>, and
  replacing the computed width by any other value \<open>w\<close> renders the same. A Task that does
  not end before it starts is rendered, at a positive zoom factor, as a bar from \<open>xOffset\<close>
  of width \<open>(d - s + 1) * pixelsPerDay\<close>, linear in \<open>pixelsPerDay\<close>.
\<close>

theorem milestone_marker_fixed_task_bar_linear:
  "distinct (map Task.id sortedTasks) \<Longrightarrow> r < length sortedTasks \<Longrightarrow>
   task = sortedTasks ! r \<Longrightarrow>
   dayNumber (Task.startDate task) = Some s \<Longrightarrow> dayNumber (Task.dueDate task) = Some d \<Longrightarrow>
   xOffset = (real_of_int s - real_of_int r0 / 86400000) * ppd \<Longrightarrow>
   positions = taskPositions sortedTasks (Some r0) ppd \<Longrightarrow>
     (Task.type task = Milestone \<longrightarrow>
        renderBar task positions = Some (MilestoneDiamond (Some (xOffset - MILESTONE_SIZE / 2)))
        \<and> Option.bind (renderBar task positions) renderedWidth = Some MILESTONE_SIZE
        \<and> (\<forall>p. positions (Task.id task) = Some p \<longrightarrow>
              renderBar task (positions(Task.id task \<mapsto> p\<lparr>width := w\<rparr>))
                = renderBar task positions))
     \<and> (Task.type task = Task \<and> s \<le> d \<and> 0 < ppd \<longrightarrow>
        renderBar task positions
          = Some (TaskBar (Some xOffset) (real_of_int (d - s + 1) * ppd))
        \<and> Option.bind (renderBar task positions) renderedWidth
          = Some (real_of_int (d - s + 1) * ppd))"
proof -
  assume dist: "distinct (map Task.id sortedTasks)" and r: "r < length sortedTasks"
    and task: "task = sortedTasks ! r"
    and s: "dayNumber (Task.startDate task) = Some s"
    and d: "dayNumber (Task.dueDate task) = Some d"
    and xo: "xOffset = (real_of_int s - real_of_int r0 / 86400000) * ppd"
    and ps: "positions = taskPositions sortedTasks (Some r0) ppd"
  let ?el = "renderBar task positions"
  have lookup: "positions (Task.id task)
      = Some \<lparr>x = Some xOffset, width = Some (real_of_int (d - s + 1) * ppd),
              y = real r * 48 + 24\<rparr>"
    using taskPositions_nth [OF dist r] task taskPosition_valid [OF s d] xo ps by simp
  have M: "?el = Some (MilestoneDiamond (Some (xOffset - MILESTONE_SIZE / 2)))"
    if "Task.type task = Milestone"
    using that lookup by (simp add: renderBar_def MILESTONE_SIZE_def)
  have I: "renderBar task (positions(Task.id task \<mapsto> p\<lparr>width := w\<rparr>)) = ?el"
    if "Task.type task = Milestone" "positions (Task.id task) = Some p" for p
  proof -
    from that(2) have "positions(Task.id task \<mapsto> p) = positions" by (rule map_upd_triv)
    with renderBar_milestone_ignores_width [OF that(1), where m = positions and p = p and w = w]
    show ?thesis by simp
  qed
  have T: "?el = Some (TaskBar (Some xOffset) (real_of_int (d - s + 1) * ppd))"
    if "Task.type task = Task" "s \<le> d" "0 < ppd"
  proof -
    from that(2) have "0 < real_of_int (d - s + 1)" by simp
    from this that(3) have "0 < real_of_int (d - s + 1) * ppd" by (rule mult_pos_pos)
    with that(1) lookup show ?thesis by (simp add: renderBar_def)
  qed
  from M I T show ?thesis by auto
qed

theorem milestone_marker_fixed_task_bar_linear_witness:
  "renderBar (exampleTask ''m1'' ''Launch'' High ''2024-03-10'' ''2024-03-10'' Milestone)
     (taskPositions
        [exampleTask ''m1'' ''Launch'' High ''2024-03-10'' ''2024-03-10'' Milestone,
         exampleTask ''t2'' ''Build'' Low ''2024-03-10'' ''2024-03-12'' Task]
        (Some (19787 * 86400000)) 40)
     = Some (MilestoneDiamond (Some 186))
   \<and> renderBar (exampleTask ''m1'' ''Launch'' High ''2024-03-10'' ''2024-03-10'' Milestone)
     (taskPositions
        [exampleTask ''m1'' ''Launch'' High ''2024-03-10'' ''2024-03-10'' Milestone,
         exampleTask ''t2'' ''Build'' Low ''2024-03-10'' ''2024-03-12'' Task]
        (Some (19787 * 86400000)) 5)
     = Some (MilestoneDiamond (Some 11))
   \<and> renderBar (exampleTask ''t2'' ''Build'' Low ''2024-03-10'' ''2024-03-12'' Task)
     (taskPositions
        [exampleTask ''m1'' ''Launch'' High ''2024-03-10'' ''2024-03-10'' Milestone,
         exampleTask ''t2'' ''Build'' Low ''2024-03-10'' ''2024-03-12'' Task]
        (Some (19787 * 86400000)) 40)
     = Some (TaskBar (Some 200) 120)
   \<and> renderBar (exampleTask ''t2'' ''Build'' Low ''2024-03-10'' ''2024-03-12'' Task)
     (taskPositions
        [exampleTask ''m1'' ''Launch'' High ''2024-03-10'' ''2024-03-10'' Milestone,
         exampleTask ''t2'' ''Build'' Low ''2024-03-10'' ''2024-03-12'' Task]
        (Some (19787 * 86400000)) 5)
     = Some (TaskBar (Some 25) 15)"
proof -
  let ?m1 = "exampleTask ''m1'' ''Launch'' High ''2024-03-10'' ''2024-03-10'' Milestone"
  let ?t2 = "exampleTask ''t2'' ''Build'' Low ''2024-03-10'' ''2024-03-12'' Task"
  have h1: "distinct (map Task.id [?m1, ?t2])" by (simp add: exampleTask_def)
  have l0: "0 < length [?m1, ?t2]" and l1: "1 < length [?m1, ?t2]" by simp_all
  have n0: "?m1 = [?m1, ?t2] ! 0" and n1: "?t2 = [?m1, ?t2] ! 1" by simp_all
  have ms: "dayNumber (Task.startDate ?m1) = Some 19792"
    and md: "dayNumber (Task.dueDate ?m1) = Some 19792"
    and ts: "dayNumber (Task.startDate ?t2) = Some 19792"
    and td: "dayNumber (Task.dueDate ?t2) = Some 19794"
    by (simp_all add: exampleTask_def day_2024_03_10 day_2024_03_12)
  have tyM: "Task.type ?m1 = Milestone" and tyT: "Task.type ?t2 = Task"
    by (simp_all add: exampleTask_def)
  note M = milestone_marker_fixed_task_bar_linear [OF h1 l0 n0 ms md refl refl]
  note T = milestone_marker_fixed_task_bar_linear [OF h1 l1 n1 ts td refl refl]
  from M [where ?r0.0 = "19787 * 86400000" and ppd = 40] tyM
  have a: "renderBar ?m1 (taskPositions [?m1, ?t2] (Some (19787 * 86400000)) 40)
      = Some (MilestoneDiamond (Some 186))"
    by (simp add: MILESTONE_SIZE_def)
  from M [where ?r0.0 = "19787 * 86400000" and ppd = 5] tyM
  have b: "renderBar ?m1 (taskPositions [?m1, ?t2] (Some (19787 * 86400000)) 5)
      = Some (MilestoneDiamond (Some 11))"
    by (simp add: MILESTONE_SIZE_def)
  from T [where ?r0.0 = "19787 * 86400000" and ppd = 40] tyT
  have c: "renderBar ?t2 (taskPositions [?m1, ?t2] (Some (19787 * 86400000)) 40)
      = Some (TaskBar (Some 200) 120)"
    by simp
  from T [where ?r0.0 = "19787 * 86400000" and ppd = 5] tyT
  have d: "renderBar ?t2 (taskPositions [?m1, ?t2] (Some (19787 * 86400000)) 5)
      = Some (TaskBar (Some 25) 15)"
    by simp
  from a b c d show ?thesis by blast
qed

end
